theory Spec2Isabelle
  imports Complex_Main "HOL-Library.AList"
begin

chapter \<open>Market microstructure engine: model of the core\<close>

text \<open>
  The Python sources are embedded function by function.  Python floats are modelled as
  \<^typ>\<open>real\<close> (exact arithmetic, no rounding), Python integers as \<^typ>\<open>int\<close>, a
  \<^verbatim>\<open>datetime\<close> as the number of microseconds since an arbitrary epoch, and every call of
  \<^verbatim>\<open>datetime.now()\<close> as an explicit argument \<open>now\<close> of the function that makes it.
\<close>

section \<open>Python primitives\<close>

text \<open>\<^verbatim>\<open>int(x)\<close> on a float truncates towards zero.\<close>

definition py_int :: "real \<Rightarrow> int" where
  "py_int x = (if 0 \<le> x then \<lfloor>x\<rfloor> else \<lceil>x\<rceil>)"

type_synonym datetime = int

definition us_per_second :: int where
  "us_per_second = 1000000"

definition us_per_day :: int where
  "us_per_day = 86400 * us_per_second"

text \<open>
  \<^verbatim>\<open>(a - b).seconds\<close>: a normalised \<^verbatim>\<open>timedelta\<close> has \<open>0 \<le> seconds < 86400\<close> and keeps
  whole days in a separate field, so the attribute is the whole seconds of the difference
  modulo one day.  \<^verbatim>\<open>(a - b).total_seconds()\<close> is the difference itself.
\<close>

definition timedelta_seconds :: "datetime \<Rightarrow> datetime \<Rightarrow> int" where
  "timedelta_seconds a b = ((a - b) div us_per_second) mod 86400"

definition timedelta_days :: "datetime \<Rightarrow> datetime \<Rightarrow> int" where
  "timedelta_days a b = (a - b) div us_per_day"

definition total_seconds :: "datetime \<Rightarrow> datetime \<Rightarrow> real" where
  "total_seconds a b = real_of_int (a - b) / real_of_int us_per_second"

text \<open>\<^verbatim>\<open>ts.time()\<close> as microseconds since midnight, and \<^verbatim>\<open>ts.hour\<close>.\<close>

definition time_of :: "datetime \<Rightarrow> int" where
  "time_of ts = ts mod us_per_day"

definition hour_of :: "datetime \<Rightarrow> int" where
  "hour_of ts = time_of ts div (3600 * us_per_second)"

text \<open>\<^verbatim>\<open>datetime.strptime(s, '%H:%M').time()\<close> for the hour \<open>h\<close> and minute \<open>m\<close> read.\<close>

definition hhmm :: "int \<Rightarrow> int \<Rightarrow> int" where
  "hhmm h m = (h * 3600 + m * 60) * us_per_second"

text \<open>\<^verbatim>\<open>str.upper()\<close> on ASCII text.\<close>

definition upper_char :: "char \<Rightarrow> char" where
  "upper_char c =
     (let n = (of_char c :: nat) in if 97 \<le> n \<and> n \<le> 122 then char_of (n - 32) else c)"

definition upper :: "string \<Rightarrow> string" where
  "upper s = map upper_char s"

text \<open>A dictionary that keeps insertion order: \<^verbatim>\<open>d[k] = v\<close> and \<^verbatim>\<open>d.get(k)\<close>.\<close>

definition dict_set :: "('k \<times> 'v) list \<Rightarrow> 'k \<Rightarrow> 'v \<Rightarrow> ('k \<times> 'v) list" where
  "dict_set d k v = AList.update k v d"

definition dict_get :: "('k \<times> 'v) list \<Rightarrow> 'k \<Rightarrow> 'v option" where
  "dict_get d k = map_of d k"

datatype py_error = KeyError | ZeroDivisionError | ValueError

section \<open>Adaptive risk system (application/services/risk/adaptive\_system.py)\<close>

datatype MarketRegime =
  TRENDING_UP | TRENDING_DOWN | RANGING | VOLATILE | QUIET | BREAKOUT | REVERSAL

record adjustments =
  signal_frequency :: real
  quality_threshold :: real
  concurrent_signals :: real
  timeout :: real
  circuit_breaker_sensitivity :: real

record limits =
  max_signals_per_minute :: int
  max_signals_per_hour :: int
  max_confluence_per_hour :: int
  max_concurrent_signals :: int
  signal_timeout :: int
  lim_quality_threshold :: real

record AdaptiveRiskSystem =
  base_max_signals_per_minute :: int
  base_max_signals_per_hour :: int
  base_max_confluence_per_hour :: int
  base_max_concurrent_signals :: int
  base_signal_timeout :: int
  base_quality_threshold :: real
  current_limits :: limits
  current_market_regime :: "(string \<times> MarketRegime) list"
  regime_adjustment_factors :: adjustments

definition neutral_adjustments :: adjustments where
  "neutral_adjustments =
     \<lparr>signal_frequency = 1.0, quality_threshold = 1.0, concurrent_signals = 1.0,
      timeout = 1.0, circuit_breaker_sensitivity = 1.0\<rparr>"

text \<open>The body of the loop over the regimes of the symbols: one \<^verbatim>\<open>if/elif\<close> chain.\<close>

fun regime_step :: "adjustments \<Rightarrow> MarketRegime \<Rightarrow> adjustments" where
  "regime_step a TRENDING_UP =
     a\<lparr>signal_frequency := signal_frequency a * 1.2,
       quality_threshold := quality_threshold a * 0.9,
       concurrent_signals := concurrent_signals a * 1.3\<rparr>"
| "regime_step a TRENDING_DOWN =
     a\<lparr>signal_frequency := signal_frequency a * 1.2,
       quality_threshold := quality_threshold a * 0.9,
       concurrent_signals := concurrent_signals a * 1.3\<rparr>"
| "regime_step a VOLATILE =
     a\<lparr>signal_frequency := signal_frequency a * 0.7,
       quality_threshold := quality_threshold a * 1.3,
       concurrent_signals := concurrent_signals a * 0.6,
       timeout := timeout a * 0.8,
       circuit_breaker_sensitivity := circuit_breaker_sensitivity a * 1.5\<rparr>"
| "regime_step a QUIET =
     a\<lparr>signal_frequency := signal_frequency a * 0.5,
       quality_threshold := quality_threshold a * 1.5,
       concurrent_signals := concurrent_signals a * 0.5\<rparr>"
| "regime_step a BREAKOUT =
     a\<lparr>signal_frequency := signal_frequency a * 1.5,
       quality_threshold := quality_threshold a * 0.8,
       concurrent_signals := concurrent_signals a * 1.5,
       timeout := timeout a * 1.2\<rparr>"
| "regime_step a REVERSAL =
     a\<lparr>signal_frequency := signal_frequency a * 0.8,
       quality_threshold := quality_threshold a * 1.2,
       concurrent_signals := concurrent_signals a * 0.8,
       circuit_breaker_sensitivity := circuit_breaker_sensitivity a * 1.3\<rparr>"
| "regime_step a RANGING = a"

definition divergence_step :: "adjustments \<Rightarrow> adjustments" where
  "divergence_step a =
     a\<lparr>quality_threshold := quality_threshold a * 1.1,
       concurrent_signals := concurrent_signals a * 0.9\<rparr>"

definition clamp_factor :: "real \<Rightarrow> real" where
  "clamp_factor x = max 0.3 (min 2.0 x)"

definition normalise_adjustments :: "adjustments \<Rightarrow> adjustments" where
  "normalise_adjustments a =
     \<lparr>signal_frequency = clamp_factor (signal_frequency a),
      quality_threshold = clamp_factor (quality_threshold a),
      concurrent_signals = clamp_factor (concurrent_signals a),
      timeout = clamp_factor (timeout a),
      circuit_breaker_sensitivity = clamp_factor (circuit_breaker_sensitivity a)\<rparr>"

text \<open>
  \<^verbatim>\<open>_calculate_regime_adjustments\<close>: the loop runs over every entry of the regime dictionary
  in insertion order; the two subscripts \<^verbatim>\<open>['WDO']\<close> and \<^verbatim>\<open>['DOL']\<close> raise \<^verbatim>\<open>KeyError\<close> on a
  dictionary without them.
\<close>

definition calculate_regime_adjustments ::
  "(string \<times> MarketRegime) list \<Rightarrow> py_error + adjustments" where
  "calculate_regime_adjustments regimes =
     (let a = foldl regime_step neutral_adjustments (map snd regimes) in
      case (dict_get regimes ''WDO'', dict_get regimes ''DOL'') of
        (Some w, Some d) \<Rightarrow>
          Inr (normalise_adjustments (if w \<noteq> d then divergence_step a else a))
      | _ \<Rightarrow> Inl KeyError)"

definition apply_regime_adjustments :: "AdaptiveRiskSystem \<Rightarrow> AdaptiveRiskSystem" where
  "apply_regime_adjustments s =
     (let f = regime_adjustment_factors s in
      s\<lparr>current_limits :=
          \<lparr>max_signals_per_minute =
             py_int (real_of_int (base_max_signals_per_minute s) * signal_frequency f),
           max_signals_per_hour =
             py_int (real_of_int (base_max_signals_per_hour s) * signal_frequency f),
           max_confluence_per_hour =
             py_int (real_of_int (base_max_confluence_per_hour s) * signal_frequency f),
           max_concurrent_signals =
             max 1 (py_int (real_of_int (base_max_concurrent_signals s) * concurrent_signals f)),
           signal_timeout = py_int (real_of_int (base_signal_timeout s) * timeout f),
           lim_quality_threshold = min 0.9 (base_quality_threshold s * quality_threshold f)\<rparr>\<rparr>)"

text \<open>
  \<^verbatim>\<open>update_market_regime\<close>: returns whether the regime changed together with the new state.
\<close>

definition update_market_regime ::
  "AdaptiveRiskSystem \<Rightarrow> string \<Rightarrow> MarketRegime \<Rightarrow> py_error + (bool \<times> AdaptiveRiskSystem)" where
  "update_market_regime s symbol new_regime =
     (if dict_get (current_market_regime s) symbol \<noteq> Some new_regime then
        (let s1 = s\<lparr>current_market_regime := dict_set (current_market_regime s) symbol new_regime\<rparr>
         in case calculate_regime_adjustments (current_market_regime s1) of
              Inl e \<Rightarrow> Inl e
            | Inr f \<Rightarrow> Inr (True, apply_regime_adjustments (s1\<lparr>regime_adjustment_factors := f\<rparr>)))
      else Inr (False, s))"

text \<open>The constructor, for the base limits read from the configuration.\<close>

definition copy_base_limits :: "AdaptiveRiskSystem \<Rightarrow> limits" where
  "copy_base_limits s =
     \<lparr>max_signals_per_minute = base_max_signals_per_minute s,
      max_signals_per_hour = base_max_signals_per_hour s,
      max_confluence_per_hour = base_max_confluence_per_hour s,
      max_concurrent_signals = base_max_concurrent_signals s,
      signal_timeout = base_signal_timeout s,
      lim_quality_threshold = base_quality_threshold s\<rparr>"

definition initial_regimes :: "(string \<times> MarketRegime) list" where
  "initial_regimes = [(''WDO'', RANGING), (''DOL'', RANGING)]"

definition new_adaptive :: "int \<Rightarrow> int \<Rightarrow> int \<Rightarrow> int \<Rightarrow> int \<Rightarrow> real \<Rightarrow> AdaptiveRiskSystem" where
  "new_adaptive per_minute per_hour confl_per_hour concurrent tmo quality =
     (let s0 = \<lparr>base_max_signals_per_minute = per_minute,
                base_max_signals_per_hour = per_hour,
                base_max_confluence_per_hour = confl_per_hour,
                base_max_concurrent_signals = concurrent,
                base_signal_timeout = tmo,
                base_quality_threshold = quality,
                current_limits = \<lparr>max_signals_per_minute = per_minute,
                   max_signals_per_hour = per_hour, max_confluence_per_hour = confl_per_hour,
                   max_concurrent_signals = concurrent, signal_timeout = tmo,
                   lim_quality_threshold = quality\<rparr>,
                current_market_regime = initial_regimes,
                regime_adjustment_factors = neutral_adjustments\<rparr>
      in case calculate_regime_adjustments initial_regimes of
           Inr f \<Rightarrow> s0\<lparr>regime_adjustment_factors := f\<rparr>
         | Inl _ \<Rightarrow> s0)"

definition default_adaptive :: AdaptiveRiskSystem where
  "default_adaptive = new_adaptive 10 100 20 5 60 0.35"

definition factors_in_range :: "adjustments \<Rightarrow> bool" where
  "factors_in_range a \<longleftrightarrow>
     0.3 \<le> signal_frequency a \<and> signal_frequency a \<le> 2.0 \<and>
     0.3 \<le> quality_threshold a \<and> quality_threshold a \<le> 2.0 \<and>
     0.3 \<le> concurrent_signals a \<and> concurrent_signals a \<le> 2.0 \<and>
     0.3 \<le> timeout a \<and> timeout a \<le> 2.0 \<and>
     0.3 \<le> circuit_breaker_sensitivity a \<and> circuit_breaker_sensitivity a \<le> 2.0"

definition adaptive_ok :: "AdaptiveRiskSystem \<Rightarrow> bool" where
  "adaptive_ok s \<longleftrightarrow>
     dict_get (current_market_regime s) ''WDO'' \<noteq> None \<and>
     dict_get (current_market_regime s) ''DOL'' \<noteq> None \<and>
     factors_in_range (regime_adjustment_factors s)"

section \<open>Signals (core/entities/signal.py)\<close>

datatype SignalSource = ARBITRAGE | TAPE_READING | CONFLUENCE | SYSTEM | MANIPULATION

datatype SignalLevel = INFO | WARNING | ALERT

text \<open>A rule of the confluence matrix: the dictionary with the keys \<^verbatim>\<open>acao\<close>, \<^verbatim>\<open>confianca\<close>, \<^verbatim>\<open>desc\<close>.\<close>

record confluence_rule =
  acao :: string
  confianca :: real
  desc :: string

text \<open>
  The detail map of a signal or candidate, \<^verbatim>\<open>Dict[str, Any]\<close> in the source, as a record of
  the keys the modelled functions read or write; \<open>None\<close> is an absent key.  The key
  \<^verbatim>\<open>level\<close> names a calculated level in a confluence signal (\<open>d_level\<close>) and holds a price in
  a candidate (\<open>d_level_num\<close>); \<open>d_hidden_levels\<close> are the prices of \<^verbatim>\<open>hidden_levels\<close>.
\<close>

record details =
  d_symbol :: "string option"
  d_pattern :: "string option"
  d_pattern_normalized :: "string option"
  d_original_pattern :: "string option"
  d_direction :: "string option"
  d_price :: "real option"
  d_volume :: "int option"
  d_strength :: "int option"
  d_profit :: "real option"
  d_cvd_roc :: "real option"
  d_level :: "string option"
  d_level_price :: "real option"
  d_level_type :: "string option"
  d_action :: "string option"
  d_confidence :: "real option"
  d_stop :: "real option"
  d_target :: "real option"
  d_is_ptax_window :: "bool option"
  d_timestamp :: "datetime option"
  d_rule_applied :: "confluence_rule option"
  d_confirmed :: "bool option"
  d_confirmation_attempts :: "int option"
  d_confirmation_time :: "int option"
  d_ratio :: "real option"
  d_concentration :: "real option"
  d_repetitions :: "int option"
  d_multiplier :: "real option"
  d_pace :: "real option"
  d_baseline :: "real option"
  d_level_num :: "real option"
  d_hidden_levels :: "real list option"

definition no_details :: details where
  "no_details =
     \<lparr>d_symbol = None, d_pattern = None, d_pattern_normalized = None,
      d_original_pattern = None, d_direction = None, d_price = None, d_volume = None,
      d_strength = None, d_profit = None, d_cvd_roc = None, d_level = None,
      d_level_price = None, d_level_type = None, d_action = None, d_confidence = None,
      d_stop = None, d_target = None, d_is_ptax_window = None, d_timestamp = None,
      d_rule_applied = None, d_confirmed = None, d_confirmation_attempts = None,
      d_confirmation_time = None, d_ratio = None, d_concentration = None,
      d_repetitions = None, d_multiplier = None, d_pace = None, d_baseline = None,
      d_level_num = None, d_hidden_levels = None\<rparr>"

text \<open>A signal; its human-readable message is text only and is left out.\<close>

record Signal =
  source :: SignalSource
  level :: SignalLevel
  timestamp :: datetime
  details :: details

section \<open>Confluence matrix (application/services/calculated\_market/confluence\_matrix.py)\<close>

record ConfluenceMatrix =
  rules :: "((string \<times> string) \<times> confluence_rule) list"
  extreme_force_threshold :: int
  minimum_force :: int
  minimum_confidence :: real

definition mk_rule :: "string \<Rightarrow> real \<Rightarrow> string \<Rightarrow> confluence_rule" where
  "mk_rule a c d = \<lparr>acao = a, confianca = c, desc = d\<rparr>"

text \<open>\<^verbatim>\<open>_get_default_rules\<close>; the descriptions are written without their diacritics.\<close>

definition default_rules :: "((string \<times> string) \<times> confluence_rule) list" where
  "default_rules =
     [((''ABSORCAO_COMPRADORA'', ''DEVENDO''), mk_rule ''COMPRA'' 0.85 ''Absorcao em suporte forte''),
      ((''ABSORCAO_COMPRADORA'', ''SOFGRE''), mk_rule ''COMPRA'' 0.90 ''Absorcao em suporte extremo''),
      ((''ABSORCAO_COMPRADORA'', ''PB''), mk_rule ''COMPRA'' 0.75 ''Absorcao em suporte primario''),
      ((''EXAUSTAO_VENDEDORA'', ''DEVENDO''), mk_rule ''COMPRA'' 0.80 ''Exaustao vendedora em suporte''),
      ((''EXAUSTAO_VENDEDORA'', ''SOFGRE''), mk_rule ''COMPRA'' 0.85 ''Exaustao vendedora extrema''),
      ((''ICEBERG_COMPRADOR'', ''DEVENDO''), mk_rule ''COMPRA'' 0.85 ''Iceberg comprador em suporte forte''),
      ((''ICEBERG_COMPRADOR'', ''PB''), mk_rule ''COMPRA'' 0.75 ''Iceberg comprador em suporte''),
      ((''VOLUME_SPREAD_COMPRA'', ''DEVENDO''), mk_rule ''COMPRA'' 0.80 ''Volume spread positivo em suporte''),
      ((''TRAP'', ''DEVENDO''), mk_rule ''COMPRA'' 0.85 ''Armadilha de baixa em suporte forte''),
      ((''SQUEEZE'', ''SOFGRE''), mk_rule ''COMPRA'' 0.90 ''Squeeze de baixa em suporte extremo''),
      ((''DIVERGENCIA_ALTA'', ''DEVENDO''), mk_rule ''COMPRA'' 0.85 ''Divergencia altista em suporte forte''),
      ((''DIVERGENCIA_ALTA'', ''SOFGRE''), mk_rule ''COMPRA'' 0.90 ''Divergencia altista em suporte extremo''),
      ((''DIVERGENCIA_ALTA'', ''PB''), mk_rule ''COMPRA'' 0.75 ''Divergencia altista em suporte primario''),
      ((''MOMENTUM_EXTREMO'', ''SOFGRE''), mk_rule ''COMPRA'' 0.85 ''Momentum de compra extremo em suporte maximo''),
      ((''MOMENTUM_EXTREMO'', ''DEVENDO''), mk_rule ''COMPRA'' 0.80 ''Momentum de compra em suporte forte''),
      ((''ABSORCAO_VENDEDORA'', ''SOFRER''), mk_rule ''VENDA'' 0.85 ''Absorcao em resistencia forte''),
      ((''ABSORCAO_VENDEDORA'', ''SOFRER_2X''), mk_rule ''VENDA'' 0.90 ''Absorcao em resistencia extrema''),
      ((''ABSORCAO_VENDEDORA'', ''DEFENDO''), mk_rule ''VENDA'' 0.75 ''Absorcao em resistencia primaria''),
      ((''EXAUSTAO_COMPRADORA'', ''SOFRER''), mk_rule ''VENDA'' 0.80 ''Exaustao compradora em resistencia''),
      ((''EXAUSTAO_COMPRADORA'', ''SOFRER_2X''), mk_rule ''VENDA'' 0.85 ''Exaustao compradora extrema''),
      ((''ICEBERG_VENDEDOR'', ''DEFENDO''), mk_rule ''VENDA'' 0.75 ''Iceberg vendedor em resistencia''),
      ((''ICEBERG_VENDEDOR'', ''SOFRER''), mk_rule ''VENDA'' 0.80 ''Iceberg vendedor em resistencia forte''),
      ((''VOLUME_SPREAD_VENDA'', ''SOFRER''), mk_rule ''VENDA'' 0.80 ''Volume spread negativo em resistencia''),
      ((''TRAP'', ''SOFRER''), mk_rule ''VENDA'' 0.85 ''Armadilha de alta em resistencia forte''),
      ((''SQUEEZE'', ''SOFRER_2X''), mk_rule ''VENDA'' 0.90 ''Squeeze de alta em resistencia extrema''),
      ((''DIVERGENCIA_BAIXA'', ''SOFRER''), mk_rule ''VENDA'' 0.85 ''Divergencia baixista em resistencia forte''),
      ((''DIVERGENCIA_BAIXA'', ''SOFRER_2X''), mk_rule ''VENDA'' 0.90 ''Divergencia baixista em resistencia extrema''),
      ((''DIVERGENCIA_BAIXA'', ''DEFENDO''), mk_rule ''VENDA'' 0.75 ''Divergencia baixista em resistencia primaria''),
      ((''MOMENTUM_EXTREMO'', ''SOFRER_2X''), mk_rule ''VENDA'' 0.85 ''Momentum de venda extremo em resistencia maxima''),
      ((''MOMENTUM_EXTREMO'', ''SOFRER''), mk_rule ''VENDA'' 0.80 ''Momentum de venda em resistencia forte'')]"

definition default_matrix :: ConfluenceMatrix where
  "default_matrix =
     \<lparr>rules = default_rules, extreme_force_threshold = 9, minimum_force = 7,
      minimum_confidence = 0.65\<rparr>"

text \<open>
  \<^verbatim>\<open>find_rule\<close>: the direction is the empty string when the candidate carries none; a rule
  read from the table is a non-empty dictionary, hence truthy.
\<close>

definition find_rule ::
  "ConfluenceMatrix \<Rightarrow> string \<Rightarrow> string \<Rightarrow> string \<Rightarrow> confluence_rule option" where
  "find_rule m pattern_name level_name signal_direction =
     (case dict_get (rules m) (pattern_name, level_name) of
        None \<Rightarrow> None
      | Some r \<Rightarrow>
          if signal_direction \<noteq> [] \<and> upper (acao r) \<noteq> upper signal_direction then None
          else Some r)"

definition check_extreme_conditions ::
  "ConfluenceMatrix \<Rightarrow> int \<Rightarrow> string \<Rightarrow> confluence_rule option" where
  "check_extreme_conditions m strength level_name =
     (if strength \<ge> extreme_force_threshold m then
        (if level_name = ''SOFRER_2X'' then
           Some \<lparr>acao = ''VENDA'', confianca = 0.85,
                 desc = ''Forca extrema em resistencia maxima''\<rparr>
         else if level_name = ''SOFGRE'' then
           Some \<lparr>acao = ''COMPRA'', confianca = 0.85,
                 desc = ''Forca extrema em suporte maximo''\<rparr>
         else None)
      else None)"

definition is_valid_signal :: "ConfluenceMatrix \<Rightarrow> confluence_rule option \<Rightarrow> int \<Rightarrow> bool" where
  "is_valid_signal m rule_opt strength =
     (case rule_opt of
        None \<Rightarrow> False
      | Some r \<Rightarrow>
          if strength < minimum_force m then False
          else if confianca r < minimum_confidence m then False
          else True)"

section \<open>Calculated levels and the confluence analyzer
  (application/services/calculated\_market/level\_calculator.py, analyzer.py)\<close>

record CalculatedLevel =
  lvl_name :: string
  lvl_price :: real
  lvl_type :: string
  lvl_strength :: int
  lvl_distance :: "real option"
  lvl_position :: "string option"

text \<open>\<^verbatim>\<open>round(x, 2)\<close>, with halves rounded up (the source rounds a binary float).\<close>

definition round2 :: "real \<Rightarrow> real" where
  "round2 x = real_of_int (round (x * 100)) / 100"

definition calculate_stops_and_targets ::
  "string \<Rightarrow> real \<Rightarrow> (string \<times> CalculatedLevel) list \<Rightarrow> real \<times> real" where
  "calculate_stops_and_targets action current_price niveis =
     (let supports = map lvl_price
            (filter (\<lambda>n. lvl_type n = ''SUPORTE'' \<and> lvl_price n < current_price)
               (map snd niveis));
          resistances = map lvl_price
            (filter (\<lambda>n. lvl_type n = ''RESISTENCIA'' \<and> lvl_price n > current_price)
               (map snd niveis))
      in if action = ''COMPRA'' then
           (round2 (if supports \<noteq> [] then fold max (tl supports) (hd supports) - 5.0
                    else current_price - 20.0),
            round2 (if resistances \<noteq> [] then fold min (tl resistances) (hd resistances)
                    else current_price + 20.0))
         else
           (round2 (if resistances \<noteq> [] then fold min (tl resistances) (hd resistances) + 5.0
                    else current_price + 20.0),
            round2 (if supports \<noteq> [] then fold max (tl supports) (hd supports)
                    else current_price - 20.0)))"

record CalculatedMarketAnalyzer =
  tolerancia_proximidade :: real
  matrix :: ConfluenceMatrix
  janelas_ptax :: "(int \<times> int) list"
  niveis_calculados :: "(string \<times> CalculatedLevel) list"

definition default_janelas_ptax :: "(int \<times> int) list" where
  "default_janelas_ptax =
     [(hhmm 10 0, hhmm 10 10), (hhmm 11 0, hhmm 11 10),
      (hhmm 12 0, hhmm 12 10), (hhmm 13 0, hhmm 13 10)]"

text \<open>
  \<^verbatim>\<open>check_proximity\<close>: the first level, in the dictionary's order, within the tolerance;
  the level returned carries the distance and position the source writes into it.
\<close>

fun check_proximity ::
  "real \<Rightarrow> (string \<times> CalculatedLevel) list \<Rightarrow> real \<Rightarrow> (string \<times> CalculatedLevel) option" where
  "check_proximity tol [] price = None"
| "check_proximity tol ((nome, nivel) # rest) price =
     (let distancia = \<bar>price - lvl_price nivel\<bar> in
      if distancia \<le> tol then
        Some (nome, nivel\<lparr>lvl_distance := Some distancia,
                lvl_position := Some (if price > lvl_price nivel then ''ACIMA'' else ''ABAIXO'')\<rparr>)
      else check_proximity tol rest price)"

definition is_ptax_window :: "(int \<times> int) list \<Rightarrow> datetime \<Rightarrow> bool" where
  "is_ptax_window janelas ts =
     list_ex (\<lambda>(inicio, fim). inicio \<le> time_of ts \<and> time_of ts \<le> fim) janelas"

definition normalize_pattern_name :: "string \<Rightarrow> string" where
  "normalize_pattern_name pattern = (if pattern = [] then ''UNKNOWN'' else upper pattern)"

text \<open>The adjustment of the confidence inside a PTAX window, lines 304 to 307 of the analyzer.\<close>

definition ptax_confidence :: "bool \<Rightarrow> real \<Rightarrow> real" where
  "ptax_confidence is_ptax confidence = (if is_ptax then min (confidence + 0.1) 0.95 else confidence)"

text \<open>
  \<^verbatim>\<open>_create_confluence_signal\<close>; \<open>direction\<close> is the one keyword argument the analyzer reads,
  \<open>now\<close> the default timestamp of the new signal.
\<close>

definition create_confluence_signal ::
  "CalculatedMarketAnalyzer \<Rightarrow> string \<Rightarrow> real \<Rightarrow> string \<Rightarrow> string \<Rightarrow> CalculatedLevel \<Rightarrow>
   confluence_rule \<Rightarrow> int \<Rightarrow> int \<Rightarrow> datetime \<Rightarrow> string option \<Rightarrow> datetime \<Rightarrow> Signal" where
  "create_confluence_signal an tape_pattern price symbol level_name level_info rule strength
       volume ts direction now =
     (let action = acao rule;
          (stop, target) = calculate_stops_and_targets action price (niveis_calculados an);
          is_ptax = is_ptax_window (janelas_ptax an) ts;
          confidence = ptax_confidence is_ptax (confianca rule)
      in \<lparr>source = CONFLUENCE, level = ALERT, timestamp = now,
          details = no_details
            \<lparr>d_symbol := Some symbol, d_pattern := Some tape_pattern,
             d_pattern_normalized := Some (normalize_pattern_name tape_pattern),
             d_price := Some price, d_level := Some level_name,
             d_level_price := Some (lvl_price level_info),
             d_level_type := Some (lvl_type level_info), d_action := Some action,
             d_confidence := Some confidence, d_stop := Some stop, d_target := Some target,
             d_strength := Some strength, d_volume := Some volume,
             d_is_ptax_window := Some is_ptax, d_timestamp := Some ts,
             d_rule_applied := Some rule, d_direction := direction\<rparr>\<rparr>)"

definition analyze_confluence ::
  "CalculatedMarketAnalyzer \<Rightarrow> string \<Rightarrow> real \<Rightarrow> string \<Rightarrow> int \<Rightarrow> int \<Rightarrow> datetime \<Rightarrow>
   string option \<Rightarrow> datetime \<Rightarrow> Signal option" where
  "analyze_confluence an tape_pattern price symbol strength volume ts direction now =
     (case check_proximity (tolerancia_proximidade an) (niveis_calculados an) price of
        None \<Rightarrow> None
      | Some (level_name, level_info) \<Rightarrow>
          (let pattern_normalized = normalize_pattern_name tape_pattern;
               signal_direction = (case direction of None \<Rightarrow> [] | Some d \<Rightarrow> d);
               found = find_rule (matrix an) pattern_normalized level_name signal_direction;
               rule = (case found of
                         None \<Rightarrow> check_extreme_conditions (matrix an) strength level_name
                       | Some r \<Rightarrow> Some r)
           in if is_valid_signal (matrix an) rule strength then
                (case rule of
                   None \<Rightarrow> None
                 | Some r \<Rightarrow>
                     Some (create_confluence_signal an tape_pattern price symbol level_name
                             level_info r strength volume ts direction now))
              else None))"

definition mk_level :: "string \<Rightarrow> real \<Rightarrow> string \<Rightarrow> int \<Rightarrow> CalculatedLevel" where
  "mk_level n p t k =
     \<lparr>lvl_name = n, lvl_price = p, lvl_type = t, lvl_strength = k, lvl_distance = None,
      lvl_position = None\<rparr>"

text \<open>An analyzer with the default parameters over a given grid of levels.\<close>

definition default_analyzer :: "(string \<times> CalculatedLevel) list \<Rightarrow> CalculatedMarketAnalyzer" where
  "default_analyzer niveis =
     \<lparr>tolerancia_proximidade = 3.0, matrix = default_matrix,
      janelas_ptax = default_janelas_ptax, niveis_calculados = niveis\<rparr>"

text \<open>A grid of two support levels, for the examples.\<close>

definition example_grid :: "(string \<times> CalculatedLevel) list" where
  "example_grid =
     [(''DEVENDO'', mk_level ''DEVENDO'' 5500 ''SUPORTE'' 2),
      (''SOFGRE'', mk_level ''SOFGRE'' 5490 ''SUPORTE'' 3)]"

section \<open>Circuit breakers (application/services/risk/circuit\_breaker.py)\<close>

datatype RiskLevel = LOW | MEDIUM | HIGH | CRITICAL

record CircuitBreakerState =
  active :: bool
  triggered_at :: "datetime option"
  reason :: string
  cooldown_seconds :: int

type_synonym breakers = "(string \<times> CircuitBreakerState) list"

definition idle_breaker :: "int \<Rightarrow> CircuitBreakerState" where
  "idle_breaker c = \<lparr>active = False, triggered_at = None, reason = [], cooldown_seconds = c\<rparr>"

text \<open>The six breakers of the constructor, for the configured cooldown (default 300).\<close>

definition new_breakers :: "int \<Rightarrow> breakers" where
  "new_breakers cooldown =
     [(''frequency'', idle_breaker cooldown), (''quality'', idle_breaker cooldown),
      (''drawdown'', idle_breaker cooldown), (''consecutive_losses'', idle_breaker cooldown),
      (''emergency'', idle_breaker cooldown), (''exposure'', idle_breaker 60)]"

definition reset_breaker :: "CircuitBreakerState \<Rightarrow> CircuitBreakerState" where
  "reset_breaker st = st\<lparr>active := False, triggered_at := None, reason := []\<rparr>"

text \<open>
  An entry of \<^verbatim>\<open>result['triggered']\<close>: the breaker's name, its reason and, when the breaker
  has a trigger time, the seconds that remain (the source formats the three into a string).
\<close>

type_synonym triggered_entry = "string \<times> string \<times> int option"

text \<open>
  The body of the loop of \<^verbatim>\<open>check_all\<close> for one breaker: the breaker after the check and
  the entry it adds to \<^verbatim>\<open>result['triggered']\<close>, if any.  A \<^verbatim>\<open>datetime\<close> is always truthy.
\<close>

definition check_breaker ::
  "datetime \<Rightarrow> string \<times> CircuitBreakerState \<Rightarrow>
   (string \<times> CircuitBreakerState) \<times> triggered_entry option" where
  "check_breaker now b =
     (let name = fst b; st = snd b in
      if active st then
        (case triggered_at st of
           Some t \<Rightarrow>
             (let elapsed = timedelta_seconds now t in
              if elapsed < cooldown_seconds st then
                ((name, st), Some (name, reason st, Some (cooldown_seconds st - elapsed)))
              else ((name, reset_breaker st), None))
         | None \<Rightarrow> ((name, st), Some (name, reason st, None)))
      else ((name, st), None))"

record cb_check =
  all_clear :: bool
  triggered :: "triggered_entry list"

definition check_all :: "datetime \<Rightarrow> breakers \<Rightarrow> cb_check \<times> breakers" where
  "check_all now bs =
     (let rs = map (check_breaker now) bs;
          hits = List.map_filter snd rs
      in (\<lparr>all_clear = (hits = []), triggered = hits\<rparr>, map fst rs))"

definition trigger :: "string \<Rightarrow> string \<Rightarrow> datetime \<Rightarrow> breakers \<Rightarrow> breakers" where
  "trigger name why now bs =
     (case dict_get bs name of
        None \<Rightarrow> bs
      | Some st \<Rightarrow>
          if \<not> active st then
            dict_set bs name (st\<lparr>active := True, triggered_at := Some now, reason := why\<rparr>)
          else bs)"

definition get_active_breakers :: "breakers \<Rightarrow> string list" where
  "get_active_breakers bs = map fst (filter (\<lambda>b. active (snd b)) bs)"

section \<open>Metrics tracker (application/services/risk/metrics\_tracker.py)\<close>

record RiskMetrics =
  total_signals :: nat
  signals_approved :: nat
  signals_rejected :: nat
  consecutive_losses :: int
  daily_pnl :: real
  peak_pnl :: real
  current_drawdown :: real

text \<open>\<^verbatim>\<open>deque(maxlen=n).append(x)\<close>: the oldest element leaves a full deque.\<close>

definition deque_append :: "nat \<Rightarrow> 'a list \<Rightarrow> 'a \<Rightarrow> 'a list" where
  "deque_append maxlen xs x = (let ys = xs @ [x] in drop (length ys - maxlen) ys)"

record RiskMetricsTracker =
  ts_all :: "datetime list"
  ts_confluence :: "datetime list"
  ts_arbitrage :: "datetime list"
  ts_tape_reading :: "datetime list"
  active_signals :: "((SignalSource \<times> datetime) \<times> (Signal \<times> datetime \<times> datetime)) list"
  signal_history :: "(Signal \<times> datetime \<times> bool) list"
  metrics :: RiskMetrics
  tr_signal_timeout :: int

definition new_tracker :: "int \<Rightarrow> RiskMetricsTracker" where
  "new_tracker tmo =
     \<lparr>ts_all = [], ts_confluence = [], ts_arbitrage = [], ts_tape_reading = [],
      active_signals = [], signal_history = [],
      metrics = \<lparr>total_signals = 0, signals_approved = 0, signals_rejected = 0,
                 consecutive_losses = 0, daily_pnl = 0, peak_pnl = 0, current_drawdown = 0\<rparr>,
      tr_signal_timeout = tmo\<rparr>"

text \<open>
  \<^verbatim>\<open>record_signal_approval\<close>: the identifier of an active signal is built from the source and
  the time of approval, so the pair of the two is the key.
\<close>

definition record_signal_approval ::
  "RiskMetricsTracker \<Rightarrow> Signal \<Rightarrow> datetime \<Rightarrow> RiskMetricsTracker" where
  "record_signal_approval tr sg now =
     (let m = metrics tr;
          tr1 = tr\<lparr>metrics := m\<lparr>total_signals := total_signals m + 1,
                                  signals_approved := signals_approved m + 1\<rparr>,
                   ts_all := deque_append 500 (ts_all tr) now\<rparr>;
          tr2 = (case source sg of
                   CONFLUENCE \<Rightarrow> tr1\<lparr>ts_confluence := deque_append 100 (ts_confluence tr1) now\<rparr>
                 | ARBITRAGE \<Rightarrow> tr1\<lparr>ts_arbitrage := deque_append 200 (ts_arbitrage tr1) now\<rparr>
                 | TAPE_READING \<Rightarrow>
                     tr1\<lparr>ts_tape_reading := deque_append 300 (ts_tape_reading tr1) now\<rparr>
                 | _ \<Rightarrow> tr1)
      in tr2\<lparr>active_signals :=
               dict_set (active_signals tr2) (source sg, now)
                 (sg, now, now + tr_signal_timeout tr * us_per_second),
             signal_history := deque_append 1000 (signal_history tr2) (sg, now, True)\<rparr>)"

datatype freq_check =
  FreqOK | PerMinute nat int | PerHour nat int | ConfluencePerHour nat int

definition within_limits :: "freq_check \<Rightarrow> bool" where
  "within_limits f = (f = FreqOK)"

definition check_signal_frequency ::
  "RiskMetricsTracker \<Rightarrow> Signal \<Rightarrow> limits \<Rightarrow> datetime \<Rightarrow> freq_check" where
  "check_signal_frequency tr sg lims now =
     (let one_minute_ago = now - 60 * us_per_second;
          signals_last_minute = length (filter (\<lambda>ts. ts > one_minute_ago) (ts_all tr));
          one_hour_ago = now - 3600 * us_per_second;
          signals_last_hour = length (filter (\<lambda>ts. ts > one_hour_ago) (ts_all tr));
          confluence_last_hour = length (filter (\<lambda>ts. ts > one_hour_ago) (ts_confluence tr))
      in if int signals_last_minute \<ge> max_signals_per_minute lims then
           PerMinute signals_last_minute (max_signals_per_minute lims)
         else if int signals_last_hour \<ge> max_signals_per_hour lims then
           PerHour signals_last_hour (max_signals_per_hour lims)
         else if source sg = CONFLUENCE \<and>
                 int confluence_last_hour \<ge> max_confluence_per_hour lims then
           ConfluencePerHour confluence_last_hour (max_confluence_per_hour lims)
         else FreqOK)"

section \<open>Signal evaluator (application/services/risk/evaluator.py)\<close>

datatype SignalQuality = POOR | FAIR | GOOD | EXCELLENT

record quality_weights =
  source_weight :: real
  level_weight :: real
  details_weight :: real
  pattern_weight :: real

record SignalEvaluator =
  ev_quality_threshold :: real
  ev_weights :: quality_weights
  evaluated_count :: nat
  approved_count :: nat
  rejection_reasons :: "(string \<times> nat) list"

definition new_evaluator :: "real \<Rightarrow> SignalEvaluator" where
  "new_evaluator q =
     \<lparr>ev_quality_threshold = q,
      ev_weights = \<lparr>source_weight = 1.5, level_weight = 0.8, details_weight = 1.5,
                    pattern_weight = 1.2\<rparr>,
      evaluated_count = 0, approved_count = 0, rejection_reasons = []\<rparr>"

record QualityEvaluation =
  score :: real
  rating :: SignalQuality
  improvements :: "string list"
  passed :: bool

text \<open>
  \<^verbatim>\<open>evaluate_quality\<close>; the list of criteria met is display text and is left out, the
  improvements are kept without their diacritics.
\<close>

definition evaluate_quality ::
  "SignalEvaluator \<Rightarrow> Signal \<Rightarrow> QualityEvaluation \<times> SignalEvaluator" where
  "evaluate_quality ev sg =
     (let w = ev_weights ev;
          s1 = (case source sg of
                  CONFLUENCE \<Rightarrow> source_weight w
                | ARBITRAGE \<Rightarrow> source_weight w * 0.8
                | TAPE_READING \<Rightarrow> source_weight w * 0.6
                | _ \<Rightarrow> source_weight w * 0.3);
          i1 = (if source sg \<in> {CONFLUENCE, ARBITRAGE, TAPE_READING} then []
                else [''Sinais de confluencia tem maior confiabilidade'']);
          s2 = (case level sg of
                  ALERT \<Rightarrow> level_weight w
                | WARNING \<Rightarrow> level_weight w * 0.6
                | INFO \<Rightarrow> level_weight w * 0.2);
          profit = (case d_profit (details sg) of None \<Rightarrow> 0 | Some x \<Rightarrow> x);
          s3 = (if profit \<ge> 50 then details_weight w * 0.6
                else if profit \<ge> 20 then details_weight w * 0.4 else 0);
          i3 = (if profit \<ge> 20 then [] else [''Busque oportunidades com maior potencial'']);
          pattern = (case d_original_pattern (details sg) of None \<Rightarrow> [] | Some x \<Rightarrow> x);
          s4 = (if pattern \<in> set [''ESCORA_DETECTADA'', ''DIVERGENCIA_ALTA'',
                     ''DIVERGENCIA_BAIXA'', ''ICEBERG'', ''MOMENTUM_EXTREMO'']
                then pattern_weight w
                else if pattern \<in> set [''PRESSAO_COMPRA'', ''PRESSAO_VENDA'', ''VOLUME_SPIKE'']
                then pattern_weight w * 0.7 else 0);
          total = s1 + s2 + s3 + s4;
          max_score = source_weight w + level_weight w + details_weight w + pattern_weight w;
          normalized_score = (if max_score > 0 then total / max_score else 0);
          r = (if normalized_score \<ge> 0.7 then EXCELLENT
               else if normalized_score \<ge> 0.5 then GOOD
               else if normalized_score \<ge> 0.35 then FAIR else POOR);
          ok = (normalized_score \<ge> ev_quality_threshold ev);
          pattern_key = (if pattern = [] then ''UNKNOWN'' else pattern);
          ev1 = ev\<lparr>evaluated_count := evaluated_count ev + 1\<rparr>;
          ev2 = (if ok then ev1\<lparr>approved_count := approved_count ev1 + 1\<rparr>
                 else ev1\<lparr>rejection_reasons :=
                        dict_set (rejection_reasons ev1) pattern_key
                          ((case dict_get (rejection_reasons ev1) pattern_key of
                              None \<Rightarrow> 0 | Some n \<Rightarrow> n) + 1)\<rparr>)
      in (\<lparr>score = normalized_score, rating = r, improvements = i1 @ i3, passed = ok\<rparr>, ev2))"

record risk_context =
  system_risk_level :: RiskLevel
  ctx_current_drawdown :: real
  ctx_consecutive_losses :: int
  market_regime :: "(string \<times> MarketRegime) list"

record ContextualRisk =
  cr_level :: RiskLevel
  cr_score :: int
  cr_factors :: "string list"

text \<open>
  \<^verbatim>\<open>evaluate_contextual_risk\<close>: the score is built by four successive additions, the level
  by one \<^verbatim>\<open>if/elif\<close> chain; the factor descriptions are kept without their diacritics.
\<close>

definition evaluate_contextual_risk :: "Signal \<Rightarrow> risk_context \<Rightarrow> datetime \<Rightarrow> ContextualRisk" where
  "evaluate_contextual_risk sg ctx now =
     (let current_risk = system_risk_level ctx;
          (score1, f1) =
            (if current_risk = CRITICAL then (3, [''Sistema em risco critico''])
             else if current_risk = HIGH then (2, [''Sistema em risco alto''])
             else if current_risk = MEDIUM then (1, [''Sistema em risco medio''])
             else (0, []));
          drawdown = ctx_current_drawdown ctx;
          (score2, f2) =
            (if drawdown > 1.5 then (score1 + 2, f1 @ [''Proximo do drawdown maximo''])
             else (score1, f1));
          hour = hour_of now;
          (score3, f3) =
            (if hour < 10 \<or> hour > 16 then (score2 + 1, f2 @ [''Horario de menor liquidez''])
             else (score2, f2));
          (risk_score, risk_factors) =
            (case d_cvd_roc (details sg) of
               Some c \<Rightarrow>
                 if \<bar>c\<bar> > 150 then (score3 + 1, f3 @ [''Volatilidade extrema detectada''])
                 else (score3, f3)
             | None \<Rightarrow> (score3, f3));
          lvl = (if risk_score \<ge> 4 then CRITICAL
                 else if risk_score \<ge> 3 then HIGH
                 else if risk_score \<ge> 2 then MEDIUM
                 else LOW)
      in \<lparr>cr_level = lvl, cr_score = risk_score, cr_factors = risk_factors\<rparr>)"

section \<open>Order book and defensive filter (core/entities/book.py, core/analysis/filters/defensive.py)\<close>

record BookLevel =
  bl_price :: real
  bl_volume :: int

record OrderBook =
  bids :: "BookLevel list"
  asks :: "BookLevel list"

text \<open>The slice \<^verbatim>\<open>xs[:n]\<close>: a negative \<open>n\<close> counts from the end.\<close>

definition py_take :: "int \<Rightarrow> 'a list \<Rightarrow> 'a list" where
  "py_take n xs = (if 0 \<le> n then take (nat n) xs else take (length xs - nat (- n)) xs)"

record defensive_config =
  layering_enabled :: bool
  min_levels :: int
  min_volume_per_level :: real
  uniformity_threshold :: real
  spoofing_enabled :: bool
  levels_to_check :: int
  imbalance_ratio :: real
  block_signals :: bool
  layering_penalty :: real
  spoofing_penalty :: real

definition default_defensive_config :: defensive_config where
  "default_defensive_config =
     \<lparr>layering_enabled = True, min_levels = 4, min_volume_per_level = 50,
      uniformity_threshold = 0.10, spoofing_enabled = True, levels_to_check = 5,
      imbalance_ratio = 5.0, block_signals = True, layering_penalty = 0.4,
      spoofing_penalty = 0.3\<rparr>"

datatype book_side = BID | ASK

text \<open>
  The test \<^verbatim>\<open>_check_layering\<close> makes on one side of the book: whether the side shows
  layering.  The mean divides by \<^verbatim>\<open>MIN_LEVELS\<close> and each deviation by the mean, so either
  division can raise \<^verbatim>\<open>ZeroDivisionError\<close>; \<^verbatim>\<open>all\<close> over an empty slice is true.
\<close>

definition layering_on_side :: "defensive_config \<Rightarrow> BookLevel list \<Rightarrow> py_error + bool" where
  "layering_on_side cfg lv =
     (if int (length lv) \<ge> min_levels cfg then
        (let volumes = map bl_volume (take 6 lv);
             firsts = py_take (min_levels cfg) volumes
         in if list_all (\<lambda>vol. real_of_int vol \<ge> min_volume_per_level cfg) firsts then
              (if min_levels cfg = 0 then Inl ZeroDivisionError
               else
                 (let avg_vol = real_of_int (sum_list firsts) / real_of_int (min_levels cfg)
                  in if firsts \<noteq> [] \<and> avg_vol = 0 then Inl ZeroDivisionError
                     else Inr (list_all
                            (\<lambda>vol. \<bar>real_of_int vol - avg_vol\<bar> / avg_vol
                                     \<le> uniformity_threshold cfg) firsts)))
            else Inr False)
      else Inr False)"

text \<open>\<^verbatim>\<open>_check_layering\<close>: the side detected, bids first.\<close>

definition check_layering :: "defensive_config \<Rightarrow> OrderBook \<Rightarrow> py_error + book_side option" where
  "check_layering cfg book =
     (case layering_on_side cfg (bids book) of
        Inl e \<Rightarrow> Inl e
      | Inr True \<Rightarrow> Inr (Some BID)
      | Inr False \<Rightarrow>
          (case layering_on_side cfg (asks book) of
             Inl e \<Rightarrow> Inl e
           | Inr True \<Rightarrow> Inr (Some ASK)
           | Inr False \<Rightarrow> Inr None))"

definition check_spoofing :: "defensive_config \<Rightarrow> OrderBook \<Rightarrow> book_side option" where
  "check_spoofing cfg book =
     (if bids book = [] \<or> asks book = [] then None
      else
        (let bid_volume = sum_list (map bl_volume (py_take (levels_to_check cfg) (bids book)));
             ask_volume = sum_list (map bl_volume (py_take (levels_to_check cfg) (asks book)))
         in if bid_volume = 0 \<or> ask_volume = 0 then None
            else
              (let ratio = (if bid_volume > ask_volume
                            then real_of_int bid_volume / real_of_int ask_volume
                            else real_of_int ask_volume / real_of_int bid_volume);
                   heavier_side = (if bid_volume > ask_volume then BID else ASK)
               in if ratio \<ge> imbalance_ratio cfg then Some heavier_side else None)))"

record risk_info =
  safe :: bool
  risks :: "string list"
  ri_confidence :: real
  action_required :: "string option"
  ri_details :: "(string \<times> book_side) list"

text \<open>\<^verbatim>\<open>_determine_action\<close>, the advice texts without their symbols.\<close>

definition determine_action :: "string list \<Rightarrow> (string \<times> book_side) list \<Rightarrow> string" where
  "determine_action rs ds =
     (case (if ''LAYERING'' \<in> set rs then dict_get ds ''LAYERING'' else None) of
        Some BID \<Rightarrow> ''CUIDADO ao COMPRAR! Book com ordens suspeitas na compra''
      | Some ASK \<Rightarrow> ''CUIDADO ao VENDER! Book com ordens suspeitas na venda''
      | None \<Rightarrow>
          (case (if ''SPOOFING'' \<in> set rs then dict_get ds ''SPOOFING'' else None) of
             Some BID \<Rightarrow> ''BOOK PESADO na COMPRA! Possivel manipulacao''
           | Some ASK \<Rightarrow> ''BOOK PESADO na VENDA! Possivel manipulacao''
           | None \<Rightarrow> ''BOOK ANORMAL! Opere com extrema cautela''))"

text \<open>
  \<^verbatim>\<open>is_signal_safe\<close>: the book is inspected only when there is one and the configuration
  blocks signals; the signal itself and the recent trades are not read.
\<close>

definition is_signal_safe ::
  "defensive_config \<Rightarrow> OrderBook option \<Rightarrow> py_error + (bool \<times> risk_info)" where
  "is_signal_safe cfg book_opt =
     (let lay = (case book_opt of
                   Some book \<Rightarrow>
                     if block_signals cfg \<and> layering_enabled cfg then check_layering cfg book
                     else Inr None
                 | None \<Rightarrow> Inr None);
          spoof = (case book_opt of
                     Some book \<Rightarrow>
                       if block_signals cfg \<and> spoofing_enabled cfg then check_spoofing cfg book
                       else None
                   | None \<Rightarrow> None)
      in case lay of
           Inl e \<Rightarrow> Inl e
         | Inr l \<Rightarrow>
             (let rs = (case l of Some _ \<Rightarrow> [''LAYERING''] | None \<Rightarrow> []) @
                       (case spoof of Some _ \<Rightarrow> [''SPOOFING''] | None \<Rightarrow> []);
                  ds = (case l of Some sd \<Rightarrow> [(''LAYERING'', sd)] | None \<Rightarrow> []) @
                       (case spoof of Some sd \<Rightarrow> [(''SPOOFING'', sd)] | None \<Rightarrow> []);
                  c = (case l of Some _ \<Rightarrow> 1 * (1 - layering_penalty cfg) | None \<Rightarrow> 1) *
                      (case spoof of Some _ \<Rightarrow> 1 - spoofing_penalty cfg | None \<Rightarrow> 1);
                  ok = (length rs = 0)
              in Inr (ok, \<lparr>safe = ok, risks = rs, ri_confidence = c,
                           action_required = (if ok then None else Some (determine_action rs ds)),
                           ri_details = ds\<rparr>)))"

section \<open>Events published on the bus (infrastructure/messaging/event\_bus.py)\<close>

datatype reason_item =
  BreakerTriggered string string "int option"
| ActiveLimit int
| CurrentRegime "(string \<times> MarketRegime) list"
| FrequencyExceeded freq_check
| InsufficientQuality real real
| ThresholdRaised
| ContextualRiskHigh "string list"

record SignalAssessment =
  approved :: bool
  risk_level :: RiskLevel
  quality :: SignalQuality
  reasons :: "reason_item list"
  recommendations :: "string list"
  as_timestamp :: datetime

text \<open>
  The bus delivers synchronously; the model keeps the list of what was published, oldest
  first, each event with the time of its publication.
\<close>

datatype event =
  SIGNAL_APPROVED Signal SignalAssessment
| PATTERN_DETECTED details
| SIGNAL_GENERATED Signal
| MANIPULATION_DETECTED Signal risk_info string

section \<open>Risk manager (application/services/risk/manager.py)\<close>

record RiskManager =
  circuit_breakers :: breakers
  evaluator :: SignalEvaluator
  adaptive_system :: AdaptiveRiskSystem
  metrics_tracker :: RiskMetricsTracker
  consecutive_losses_limit :: int
  max_drawdown_percent :: real
  emergency_stop_loss :: real
  published :: "(datetime \<times> event) list"

text \<open>The manager the constructor builds from the default configuration.\<close>

definition default_risk_manager :: RiskManager where
  "default_risk_manager =
     \<lparr>circuit_breakers = new_breakers 300, evaluator = new_evaluator 0.35,
      adaptive_system = default_adaptive, metrics_tracker = new_tracker 60,
      consecutive_losses_limit = 5, max_drawdown_percent = 2.0, emergency_stop_loss = 1000.0,
      published = []\<rparr>"

definition calculate_current_risk_level :: "RiskManager \<Rightarrow> RiskLevel" where
  "calculate_current_risk_level m =
     (let mt = metrics (metrics_tracker m);
          active_breakers = length (get_active_breakers (circuit_breakers m));
          volatile_count = length (filter (\<lambda>r. snd r = VOLATILE)
                                     (current_market_regime (adaptive_system m)))
      in if active_breakers \<ge> 3 then CRITICAL
         else if active_breakers \<ge> 2 then HIGH
         else if active_breakers \<ge> 1 then MEDIUM
         else if consecutive_losses mt \<ge> consecutive_losses_limit m then CRITICAL
         else if real_of_int (consecutive_losses mt)
                 \<ge> real_of_int (consecutive_losses_limit m) * 0.6 then HIGH
         else if current_drawdown mt \<ge> max_drawdown_percent m then CRITICAL
         else if current_drawdown mt \<ge> max_drawdown_percent m * 0.7 then HIGH
         else if daily_pnl mt \<le> - emergency_stop_loss m then CRITICAL
         else if daily_pnl mt \<le> - emergency_stop_loss m * 0.5 then HIGH
         else if volatile_count \<ge> 2 then MEDIUM
         else LOW)"

text \<open>\<^verbatim>\<open>_get_risk_recommendations\<close>, the texts without their symbols and figures.\<close>

definition get_risk_recommendations ::
  "RiskManager \<Rightarrow> Signal \<Rightarrow> QualityEvaluation \<Rightarrow> string list" where
  "get_risk_recommendations m sg q =
     (let r1 = (if rating q = EXCELLENT then [''Sinal de alta qualidade'']
                else if rating q = GOOD then [''Sinal bom''] else []);
          active_count = length (active_signals (metrics_tracker m));
          max_concurrent = max_concurrent_signals (current_limits (adaptive_system m));
          r2 = (if real active_count \<ge> real_of_int max_concurrent * 0.6
                then [''sinais ativos''] else []);
          symbol = (case d_symbol (details sg) of None \<Rightarrow> ''WDO'' | Some x \<Rightarrow> x);
          regime = (case dict_get (current_market_regime (adaptive_system m)) symbol of
                      None \<Rightarrow> RANGING | Some x \<Rightarrow> x);
          r3 = (if regime = VOLATILE then [''Mercado volatil - use stops largos'']
                else if regime = TRENDING_UP then [''Tendencia de alta - favoreca compras'']
                else if regime = TRENDING_DOWN then [''Tendencia de baixa - favoreca vendas'']
                else [])
      in take 2 (r1 @ r2 @ r3))"

text \<open>The context the manager hands to the contextual evaluation (step 5).\<close>

definition risk_context_of :: "RiskManager \<Rightarrow> risk_context" where
  "risk_context_of m =
     \<lparr>system_risk_level = calculate_current_risk_level m,
      ctx_current_drawdown = current_drawdown (metrics (metrics_tracker m)),
      ctx_consecutive_losses = consecutive_losses (metrics (metrics_tracker m)),
      market_regime = current_market_regime (adaptive_system m)\<rparr>"

text \<open>
  \<^verbatim>\<open>evaluate_signal\<close>: the six steps in the order of the source, each an early return.
  The result is the pair the source returns and the manager after the call; one reading
  \<open>now\<close> of the clock stands for the readings the call makes.
\<close>

definition evaluate_signal ::
  "RiskManager \<Rightarrow> Signal \<Rightarrow> datetime \<Rightarrow> (bool \<times> SignalAssessment) \<times> RiskManager" where
  "evaluate_signal m sg now =
     (let a0 = \<lparr>approved = False, risk_level = LOW, quality = POOR, reasons = [],
                recommendations = [], as_timestamp = now\<rparr>;
          (cb, bs) = check_all now (circuit_breakers m);
          m1 = m\<lparr>circuit_breakers := bs\<rparr>
      in if \<not> all_clear cb then
           ((False, a0\<lparr>risk_level := CRITICAL,
                       reasons := map (\<lambda>(n, w, r). BreakerTriggered n w r) (triggered cb)\<rparr>), m1)
         else
           (let current = current_limits (adaptive_system m1);
                active_count = length (active_signals (metrics_tracker m1))
            in if int active_count \<ge> max_concurrent_signals current then
                 ((False, a0\<lparr>risk_level := HIGH,
                             reasons := [ActiveLimit (max_concurrent_signals current),
                               CurrentRegime (current_market_regime (adaptive_system m1))]\<rparr>), m1)
               else
                 (let freq = check_signal_frequency (metrics_tracker m1) sg current now
                  in if \<not> within_limits freq then
                       ((False, a0\<lparr>risk_level := HIGH, reasons := [FrequencyExceeded freq]\<rparr>), m1)
                     else
                       (let (q, ev) = evaluate_quality
                              ((evaluator m1)\<lparr>ev_quality_threshold := lim_quality_threshold current\<rparr>)
                              sg;
                            m2 = m1\<lparr>evaluator := ev\<rparr>;
                            a1 = a0\<lparr>quality := rating q\<rparr>
                        in if \<not> passed q then
                             ((False, a1\<lparr>risk_level := MEDIUM,
                                 reasons := [InsufficientQuality (score q) (lim_quality_threshold current)] @
                                   (if quality_threshold (regime_adjustment_factors (adaptive_system m2)) > 1.1
                                    then [ThresholdRaised] else []),
                                 recommendations := improvements q\<rparr>), m2)
                           else
                             (let context_risk = evaluate_contextual_risk sg (risk_context_of m2) now;
                                  a2 = a1\<lparr>risk_level := cr_level context_risk\<rparr>
                              in if cr_level context_risk \<in> {HIGH, CRITICAL} then
                                   ((False, a2\<lparr>reasons := [ContextualRiskHigh (cr_factors context_risk)]\<rparr>), m2)
                                 else
                                   (let a3 = a2\<lparr>approved := True,
                                            recommendations := get_risk_recommendations m2 sg q\<rparr>;
                                        m3 = m2\<lparr>metrics_tracker :=
                                               record_signal_approval (metrics_tracker m2) sg now\<rparr>
                                    in ((True, a3),
                                        m3\<lparr>published := published m3 @ [(now, SIGNAL_APPROVED sg a3)]\<rparr>)))))))"

text \<open>
  The steps before the contextual evaluation let the signal through: the condition under
  which \<^verbatim>\<open>evaluate_signal\<close> reaches its step 5, and the manager it has built by then.
\<close>

definition before_contextual :: "RiskManager \<Rightarrow> Signal \<Rightarrow> datetime \<Rightarrow> RiskManager" where
  "before_contextual m sg now =
     (let m1 = m\<lparr>circuit_breakers := snd (check_all now (circuit_breakers m))\<rparr>;
          current = current_limits (adaptive_system m1)
      in m1\<lparr>evaluator := snd (evaluate_quality
               ((evaluator m1)\<lparr>ev_quality_threshold := lim_quality_threshold current\<rparr>) sg)\<rparr>)"

definition reaches_contextual :: "RiskManager \<Rightarrow> Signal \<Rightarrow> datetime \<Rightarrow> bool" where
  "reaches_contextual m sg now =
     (let current = current_limits (adaptive_system m) in
      all_clear (fst (check_all now (circuit_breakers m))) \<and>
      int (length (active_signals (metrics_tracker m))) < max_concurrent_signals current \<and>
      within_limits (check_signal_frequency (metrics_tracker m) sg current now) \<and>
      passed (fst (evaluate_quality
         ((evaluator m)\<lparr>ev_quality_threshold := lim_quality_threshold current\<rparr>) sg)))"

text \<open>
  The contextual score as the specification words it, for a configured maximum drawdown:
  3, 2 or 1 points for a system risk level of CRITICAL, HIGH or MEDIUM; 2 points when the
  drawdown is within 25 per cent of the maximum; 1 point when the time of day is outside
  10:00 to 16:00; 1 point when the absolute CVD rate of change is above 150.
\<close>

definition spec_contextual_score ::
  "real \<Rightarrow> RiskLevel \<Rightarrow> real \<Rightarrow> datetime \<Rightarrow> real option \<Rightarrow> int" where
  "spec_contextual_score max_drawdown sys drawdown now cvd_roc =
     (case sys of CRITICAL \<Rightarrow> 3 | HIGH \<Rightarrow> 2 | MEDIUM \<Rightarrow> 1 | LOW \<Rightarrow> 0) +
     (if drawdown \<ge> max_drawdown - 0.25 * max_drawdown then 2 else 0) +
     (if time_of now < hhmm 10 0 \<or> time_of now > hhmm 16 0 then 1 else 0) +
     (case cvd_roc of Some c \<Rightarrow> if \<bar>c\<bar> > 150 then 1 else 0 | None \<Rightarrow> 0)"

definition level_of_score :: "int \<Rightarrow> RiskLevel" where
  "level_of_score n =
     (if n \<ge> 4 then CRITICAL else if n \<ge> 3 then HIGH else if n \<ge> 2 then MEDIUM else LOW)"

text \<open>A tape-reading signal and a manager with one triggered breaker, for the examples.\<close>

definition example_signal :: Signal where
  "example_signal =
     \<lparr>source = TAPE_READING, level = ALERT, timestamp = 0,
      details = no_details\<lparr>d_symbol := Some ''WDO'', d_pattern := Some ''ICEBERG'',
        d_original_pattern := Some ''ICEBERG'', d_price := Some 5500, d_volume := Some 300\<rparr>\<rparr>"

definition stale_breaker_manager :: RiskManager where
  "stale_breaker_manager =
     default_risk_manager\<lparr>circuit_breakers :=
        trigger ''drawdown'' ''Drawdown 2.5%'' 0 (new_breakers 300)\<rparr>"

section \<open>Trades and the in-memory trade cache
  (core/entities/trade.py, infrastructure/cache/memory.py)\<close>

datatype TradeSide = BUY | SELL | UNKNOWN

record Trade =
  tr_symbol :: string
  tr_price :: real
  tr_volume :: int
  tr_side :: TradeSide
  tr_timestamp :: datetime
  time_str :: string

text \<open>
  The cache hands out Python objects, so the model keeps a store: every deque and every list
  is an object at a reference, the dictionary \<^verbatim>\<open>self.cache\<close> maps a symbol to the reference of
  its deque, and a new object takes the next unused reference.  A deque carries the
  \<^verbatim>\<open>maxlen\<close> it was created with.
\<close>

type_synonym ref = nat

datatype obj = Deque "Trade list" nat | PyList "Trade list"

record cache_stats =
  hits :: nat
  misses :: nat
  additions :: nat
  evictions :: nat

record TradeMemoryCache =
  max_size :: nat
  cache :: "(string \<times> ref) list"
  heap :: "ref \<Rightarrow> obj option"
  next_ref :: ref
  stats :: cache_stats
  total_added :: "(string \<times> nat) list"

definition new_cache :: "nat \<Rightarrow> TradeMemoryCache" where
  "new_cache n =
     \<lparr>max_size = n, cache = [], heap = (\<lambda>_. None), next_ref = 0,
      stats = \<lparr>hits = 0, misses = 0, additions = 0, evictions = 0\<rparr>, total_added = []\<rparr>"

text \<open>\<^verbatim>\<open>deque.extend\<close> appends the elements one by one, each append displacing the oldest
  element of a full deque.\<close>

definition deque_extend :: "nat \<Rightarrow> 'a list \<Rightarrow> 'a list \<Rightarrow> 'a list" where
  "deque_extend maxlen xs ys = foldl (deque_append maxlen) xs ys"

definition alloc :: "TradeMemoryCache \<Rightarrow> obj \<Rightarrow> ref \<times> TradeMemoryCache" where
  "alloc c ob = (next_ref c, c\<lparr>heap := (heap c)(next_ref c \<mapsto> ob), next_ref := Suc (next_ref c)\<rparr>)"

text \<open>The deque of a symbol: its elements and its \<^verbatim>\<open>maxlen\<close>.\<close>

definition deque_of :: "TradeMemoryCache \<Rightarrow> string \<Rightarrow> (Trade list \<times> nat) option" where
  "deque_of c symbol =
     (case dict_get (cache c) symbol of
        None \<Rightarrow> None
      | Some r \<Rightarrow> (case heap c r of Some (Deque items n) \<Rightarrow> Some (items, n) | _ \<Rightarrow> None))"

text \<open>
  \<^verbatim>\<open>add_trades\<close>: the number of evictions is computed from \<^verbatim>\<open>self.max_size\<close> before the deque
  is extended; the metadata kept is the count of trades added per symbol.
\<close>

definition add_trades :: "TradeMemoryCache \<Rightarrow> string \<Rightarrow> Trade list \<Rightarrow> TradeMemoryCache" where
  "add_trades c symbol trades =
     (if trades = [] then c
      else
        (let c1 = (if dict_get (cache c) symbol = None then
                     (let (r, c') = alloc c (Deque [] (max_size c))
                      in c'\<lparr>cache := dict_set (cache c') symbol r,
                            total_added := dict_set (total_added c') symbol 0\<rparr>)
                   else c)
         in case dict_get (cache c1) symbol of
              None \<Rightarrow> c1
            | Some r \<Rightarrow>
                (case heap c1 r of
                   Some (Deque items n) \<Rightarrow>
                     (let current_size = length items;
                          new_trades_count = length trades;
                          evicted =
                            (if current_size + new_trades_count > max_size c1
                             then min current_size (current_size + new_trades_count - max_size c1)
                             else 0);
                          st = stats c1
                      in c1\<lparr>heap := (heap c1)(r \<mapsto> Deque (deque_extend n items trades) n),
                            stats := st\<lparr>evictions := evictions st + evicted,
                                       additions := additions st + new_trades_count\<rparr>,
                            total_added := dict_set (total_added c1) symbol
                              ((case dict_get (total_added c1) symbol of
                                  None \<Rightarrow> 0 | Some k \<Rightarrow> k) + new_trades_count)\<rparr>)
                 | _ \<Rightarrow> c1)))"

text \<open>The slice \<^verbatim>\<open>xs[start:]\<close>: a negative start counts from the end.\<close>

definition py_from :: "int \<Rightarrow> 'a list \<Rightarrow> 'a list" where
  "py_from start xs =
     (if start < 0 then drop (length xs - nat (- start)) xs else drop (nat start) xs)"

text \<open>
  \<^verbatim>\<open>get_recent_trades\<close>: \<^verbatim>\<open>list(deque)\<close> builds a new list object, and the slice of it another;
  the result is the reference of the list returned, with the cache after the call.
\<close>

definition get_recent_trades ::
  "TradeMemoryCache \<Rightarrow> string \<Rightarrow> int \<Rightarrow> ref \<times> TradeMemoryCache" where
  "get_recent_trades c symbol count =
     (case deque_of c symbol of
        None \<Rightarrow> alloc (c\<lparr>stats := (stats c)\<lparr>misses := misses (stats c) + 1\<rparr>\<rparr>) (PyList [])
      | Some (items, n) \<Rightarrow>
          (let c1 = c\<lparr>stats := (stats c)\<lparr>hits := hits (stats c) + 1\<rparr>\<rparr>;
               (r1, c2) = alloc c1 (PyList items)
           in if count \<ge> int (length items) then (r1, c2)
              else alloc c2 (PyList (py_from (- count) items))))"

text \<open>The list a reference denotes, for the caller that received it.\<close>

definition list_at :: "TradeMemoryCache \<Rightarrow> ref \<Rightarrow> Trade list" where
  "list_at c r = (case heap c r of Some (PyList xs) \<Rightarrow> xs | _ \<Rightarrow> [])"

definition recent_trades :: "TradeMemoryCache \<Rightarrow> string \<Rightarrow> int \<Rightarrow> Trade list" where
  "recent_trades c symbol count =
     (let (r, c') = get_recent_trades c symbol count in list_at c' r)"

definition get_size :: "TradeMemoryCache \<Rightarrow> string \<Rightarrow> nat" where
  "get_size c symbol = (case deque_of c symbol of None \<Rightarrow> 0 | Some (items, n) \<Rightarrow> length items)"

text \<open>
  The well-formedness of the store, which the constructor establishes and every method
  keeps: the symbols of \<^verbatim>\<open>self.cache\<close> refer to distinct, allocated deques, each created
  with \<^verbatim>\<open>maxlen = max_size\<close> and holding at most that many trades.
\<close>

definition cache_ok :: "TradeMemoryCache \<Rightarrow> bool" where
  "cache_ok c \<longleftrightarrow>
     distinct (map fst (cache c)) \<and> distinct (map snd (cache c)) \<and>
     list_all (\<lambda>(symbol, r). r < next_ref c \<and>
        (case heap c r of
           Some (Deque items n) \<Rightarrow> n = max_size c \<and> length items \<le> n
         | _ \<Rightarrow> False)) (cache c)"

text \<open>A caller overwrites the object it was handed (any mutation of the returned list).\<close>

definition caller_writes :: "TradeMemoryCache \<Rightarrow> ref \<Rightarrow> Trade list \<Rightarrow> TradeMemoryCache" where
  "caller_writes c r xs = c\<lparr>heap := (heap c)(r \<mapsto> PyList xs)\<rparr>"

definition mk_trade :: "string \<Rightarrow> real \<Rightarrow> int \<Rightarrow> TradeSide \<Rightarrow> datetime \<Rightarrow> Trade" where
  "mk_trade smb p v sd ts =
     \<lparr>tr_symbol = smb, tr_price = p, tr_volume = v, tr_side = sd, tr_timestamp = ts,
      time_str = []\<rparr>"

text \<open>The number \<^verbatim>\<open>add_trades\<close> adds to the eviction counter, for a capacity, the size of the
  deque before the batch and the size of the batch.\<close>

definition evicted_count :: "nat \<Rightarrow> nat \<Rightarrow> nat \<Rightarrow> nat" where
  "evicted_count cap cur new = (if cur + new > cap then min cur (cur + new - cap) else 0)"

text \<open>
  The trades that leave the buffer: one append drops as many elements as the deque fails to
  grow by, and \<^verbatim>\<open>extend\<close> appends the trades of the batch one by one.
\<close>

definition dropped_on_append :: "nat \<Rightarrow> 'a list \<Rightarrow> 'a \<Rightarrow> nat" where
  "dropped_on_append maxlen xs x = Suc (length xs) - length (deque_append maxlen xs x)"

fun displaced :: "nat \<Rightarrow> 'a list \<Rightarrow> 'a list \<Rightarrow> nat" where
  "displaced maxlen xs [] = 0"
| "displaced maxlen xs (y # ys) =
     dropped_on_append maxlen xs y + displaced maxlen (deque_append maxlen xs y) ys"

text \<open>The trades a symbol's deque holds (the content \<^verbatim>\<open>get_all_trades\<close> copies).\<close>

definition cached_trades :: "TradeMemoryCache \<Rightarrow> string \<Rightarrow> Trade list" where
  "cached_trades c symbol = (case deque_of c symbol of None \<Rightarrow> [] | Some (items, n) \<Rightarrow> items)"

text \<open>A sequence of \<^verbatim>\<open>add_trades\<close> calls.\<close>

definition run_adds :: "TradeMemoryCache \<Rightarrow> (string \<times> Trade list) list \<Rightarrow> TradeMemoryCache" where
  "run_adds c batches = foldl (\<lambda>c' (symbol, trades). add_trades c' symbol trades) c batches"

text \<open>Trades and batches for the examples.\<close>

definition example_trade :: "int \<Rightarrow> Trade" where
  "example_trade k = mk_trade ''WDO'' 5500 k BUY k"

definition example_batches :: "(string \<times> Trade list) list" where
  "example_batches =
     [(''WDO'', [example_trade 1, example_trade 2]),
      (''WDO'', [example_trade 3, example_trade 4, example_trade 5, example_trade 6,
                 example_trade 7])]"

section \<open>Cooldown filter (core/analysis/filters/cooldown.py)\<close>

record PatternCooldown =
  cooldown_table :: "(string \<times> int) list"
  last_pattern_time :: "(string \<times> datetime) list"
  blocked_count :: "(string \<times> nat) list"

text \<open>The cooldowns the service configures by default.\<close>

definition default_cooldowns :: "(string \<times> int) list" where
  "default_cooldowns =
     [(''default'', 30), (''PRESSAO_COMPRA'', 15), (''PRESSAO_VENDA'', 15),
      (''MOMENTUM_EXTREMO'', 20), (''ESCORA_DETECTADA'', 30), (''DIVERGENCIA_ALTA'', 25),
      (''DIVERGENCIA_BAIXA'', 25), (''ICEBERG'', 30), (''VOLUME_SPIKE'', 15),
      (''PACE_ANOMALY'', 20), (''INSTITUTIONAL_FOOTPRINT'', 60), (''HIDDEN_LIQUIDITY'', 45),
      (''MULTIFRAME_DIVERGENCE'', 40), (''MULTIFRAME_CONFLUENCE'', 35),
      (''TRAP_DETECTED'', 30), (''BOOK_PULLING'', 10), (''BOOK_STACKING'', 10),
      (''FLASH_ORDER'', 5), (''IMBALANCE_SHIFT'', 15)]"

definition new_cooldown :: "(string \<times> int) list \<Rightarrow> PatternCooldown" where
  "new_cooldown table = \<lparr>cooldown_table = table, last_pattern_time = [], blocked_count = []\<rparr>"

definition cooldown_key :: "string \<Rightarrow> string \<Rightarrow> string" where
  "cooldown_key pattern symbol = symbol @ ''_'' @ pattern"

definition cooldown_of :: "PatternCooldown \<Rightarrow> string \<Rightarrow> int" where
  "cooldown_of cd pattern =
     (case dict_get (cooldown_table cd) pattern of
        Some c \<Rightarrow> c
      | None \<Rightarrow> (case dict_get (cooldown_table cd) ''default'' of Some c \<Rightarrow> c | None \<Rightarrow> 30))"

definition can_emit_pattern ::
  "PatternCooldown \<Rightarrow> string \<Rightarrow> string \<Rightarrow> datetime \<Rightarrow> bool \<times> PatternCooldown" where
  "can_emit_pattern cd pattern symbol now =
     (let key = cooldown_key pattern symbol in
      case dict_get (last_pattern_time cd) key of
        None \<Rightarrow> (True, cd\<lparr>last_pattern_time := dict_set (last_pattern_time cd) key now\<rparr>)
      | Some last_time \<Rightarrow>
          (let cooldown = cooldown_of cd pattern;
               elapsed = timedelta_seconds now last_time
           in if elapsed \<ge> cooldown then
                (True, cd\<lparr>last_pattern_time := dict_set (last_pattern_time cd) key now\<rparr>)
              else
                (False, cd\<lparr>blocked_count := dict_set (blocked_count cd) key
                   ((case dict_get (blocked_count cd) key of None \<Rightarrow> 0 | Some n \<Rightarrow> n) + 1)\<rparr>)))"

section \<open>Quality filter (core/analysis/filters/quality.py)\<close>

record SignalQualityFilter =
  min_quality_score :: real
  filtered_count :: nat
  passed_count :: nat

definition opt_real :: "real option \<Rightarrow> real \<Rightarrow> real" where
  "opt_real x d = (case x of None \<Rightarrow> d | Some v \<Rightarrow> v)"

definition opt_int :: "int option \<Rightarrow> int \<Rightarrow> int" where
  "opt_int x d = (case x of None \<Rightarrow> d | Some v \<Rightarrow> v)"

text \<open>The raw score and the maximum score of a candidate, by its pattern.\<close>

definition quality_points :: "details \<Rightarrow> real \<times> real" where
  "quality_points pd =
     (let pattern = d_pattern pd in
      if pattern = Some ''PRESSAO_COMPRA'' \<or> pattern = Some ''PRESSAO_VENDA'' then
        (let ratio = opt_real (d_ratio pd) 0 in
         (if ratio > 0.9 then 2.0 else if ratio > 0.85 then 1.5 else 0.5, 2.0))
      else if pattern = Some ''MOMENTUM_EXTREMO'' then
        (let cvd_roc = \<bar>opt_real (d_cvd_roc pd) 0\<bar> in
         (if cvd_roc > 500 then 2.5 else if cvd_roc > 300 then 2.0
          else if cvd_roc > 200 then 1.5 else 0.8, 2.5))
      else if pattern = Some ''ESCORA_DETECTADA'' then
        (let volume = opt_int (d_volume pd) 0;
             concentration = opt_real (d_concentration pd) 0
         in ((if volume > 5000 then 1.5 else if volume > 2000 then 1.0 else 0.5) +
             (if concentration > 0.6 then 1.5 else if concentration > 0.5 then 1.0 else 0.5),
             3.0))
      else if pattern = Some ''DIVERGENCIA_ALTA'' \<or> pattern = Some ''DIVERGENCIA_BAIXA'' then
        (let cvd_roc = \<bar>opt_real (d_cvd_roc pd) 0\<bar> in
         (if cvd_roc > 150 then 2.5 else if cvd_roc > 100 then 2.0 else 1.0, 2.5))
      else if pattern = Some ''ICEBERG'' then
        (let repetitions = opt_int (d_repetitions pd) 0 in
         (if repetitions > 5 then 2.0 else if repetitions > 3 then 1.5 else 0.8, 2.0))
      else if pattern = Some ''VOLUME_SPIKE'' then
        (let multiplier = opt_real (d_multiplier pd) 0 in
         (if multiplier > 10 then 1.5 else if multiplier > 5 then 1.0 else 0.5, 1.5))
      else if pattern = Some ''PACE_ANOMALY'' then
        (let pace = opt_real (d_pace pd) 0;
             baseline = opt_real (d_baseline pd) 1;
             ratio = (if baseline > 0 then pace / baseline else 0)
         in (if ratio > 5 then 1.0 else if ratio > 3 then 0.7 else 0.3, 1.0))
      else (0.3, 1.0))"

definition evaluate_signal_quality ::
  "SignalQualityFilter \<Rightarrow> details \<Rightarrow> (bool \<times> real) \<times> SignalQualityFilter" where
  "evaluate_signal_quality qf pd =
     (let (points, max_score) = quality_points pd;
          normalized_score = (if max_score > 0 then points / max_score else 0);
          ok = (normalized_score \<ge> min_quality_score qf)
      in ((ok, normalized_score),
          if ok then qf\<lparr>passed_count := passed_count qf + 1\<rparr>
          else qf\<lparr>filtered_count := filtered_count qf + 1\<rparr>))"

section \<open>Signal formatter (core/formatters/signal\_formatter.py)\<close>

definition get_signal_level :: "string \<Rightarrow> SignalLevel" where
  "get_signal_level pattern =
     (if pattern \<in> set [''ESCORA_DETECTADA'', ''DIVERGENCIA_BAIXA'', ''DIVERGENCIA_ALTA'',
           ''MOMENTUM_EXTREMO'', ''ICEBERG'', ''PRESSAO_COMPRA'', ''PRESSAO_VENDA'',
           ''INSTITUTIONAL_FOOTPRINT'', ''HIDDEN_LIQUIDITY'', ''MULTIFRAME_DIVERGENCE'',
           ''MULTIFRAME_CONFLUENCE'', ''HIDDEN_ACCUMULATION'', ''HIDDEN_DISTRIBUTION'',
           ''TRAP_DETECTED''] then ALERT
      else if pattern \<in> set [''PACE_ANOMALY'', ''VOLUME_SPIKE'', ''BOOK_PULLING'',
           ''BOOK_STACKING'', ''FLASH_ORDER'', ''REGIME_CHANGE'', ''IMBALANCE_SHIFT''] then WARNING
      else INFO)"

text \<open>
  \<^verbatim>\<open>format\<close>: the candidate receives the key \<^verbatim>\<open>original_pattern\<close>, and the details of the
  signal are the candidate's, with the symbol argument where the candidate has none.
\<close>

definition format_signal :: "details \<Rightarrow> string \<Rightarrow> datetime \<Rightarrow> Signal" where
  "format_signal raw_signal symbol now =
     (let pattern = (case d_pattern raw_signal of None \<Rightarrow> ''UNKNOWN'' | Some x \<Rightarrow> x);
          raw1 = raw_signal\<lparr>d_original_pattern := Some pattern\<rparr>
      in \<lparr>source = TAPE_READING, level = get_signal_level pattern, timestamp = now,
          details = raw1\<lparr>d_symbol := (case d_symbol raw1 of None \<Rightarrow> Some symbol
                                        | Some x \<Rightarrow> Some x)\<rparr>\<rparr>)"

section \<open>Pattern confirmation (application/services/tape\_reading/pending\_pattern\_manager.py)\<close>

text \<open>
  The confirmation criteria of a pending pattern, one constructor for each family of
  patterns, holding the keys the checks read:
  absorption (\<^verbatim>\<open>min_tests\<close>, \<^verbatim>\<open>test_threshold\<close>, \<^verbatim>\<open>level\<close>, \<^verbatim>\<open>original_volume\<close>, \<^verbatim>\<open>test_count\<close>,
  \<^verbatim>\<open>test_volumes\<close>); divergence (\<^verbatim>\<open>confirmation_bars\<close>, \<^verbatim>\<open>price_confirmation\<close>,
  \<^verbatim>\<open>original_price\<close>, \<^verbatim>\<open>bars_checked\<close>); momentum (\<^verbatim>\<open>requires_continuation\<close>,
  \<^verbatim>\<open>min_continuation_cvd\<close>, \<^verbatim>\<open>original_direction\<close>); institutional footprint
  (\<^verbatim>\<open>min_persistence\<close>, \<^verbatim>\<open>volume_threshold\<close>, \<^verbatim>\<open>persistence_checks\<close>); hidden liquidity
  (\<^verbatim>\<open>reload_confirmations\<close>, the prices of \<^verbatim>\<open>original_levels\<close>, \<^verbatim>\<open>confirmed_reloads\<close>).
\<close>

datatype criteria =
  AbsorptionCriteria int real real int int "int list"
| DivergenceCriteria int bool real int
| MomentumCriteria bool real "string option"
| InstitutionalCriteria real real int
| HiddenCriteria int "real list" int
| NoCriteria

record PendingPattern =
  pp_pattern :: string
  pp_symbol :: string
  pp_data :: details
  created_at :: datetime
  expires_at :: datetime
  confirmation_criteria :: criteria
  attempts :: int
  last_check :: "datetime option"

text \<open>An entry of \<^verbatim>\<open>config['patterns']\<close>; \<open>None\<close> is an absent key.\<close>

record pattern_params =
  pc_timeout :: "int option"
  pc_min_tests :: "int option"
  pc_test_threshold :: "real option"
  pc_confirmation_bars :: "int option"
  pc_price_confirmation :: "bool option"
  pc_requires_continuation :: "bool option"
  pc_min_continuation_cvd :: "real option"
  pc_min_persistence :: "real option"
  pc_volume_threshold :: "real option"
  pc_reload_confirmations :: "int option"

definition no_params :: pattern_params where
  "no_params =
     \<lparr>pc_timeout = None, pc_min_tests = None, pc_test_threshold = None,
      pc_confirmation_bars = None, pc_price_confirmation = None,
      pc_requires_continuation = None, pc_min_continuation_cvd = None,
      pc_min_persistence = None, pc_volume_threshold = None, pc_reload_confirmations = None\<rparr>"

record confirmation_config =
  enabled :: bool
  max_pending :: int
  default_timeout :: int
  check_interval :: real
  patterns :: "(string \<times> pattern_params) list"

text \<open>
  The tape-reading service with the components its parts share: the signal processor and
  the confirmation system hold the same cooldown filter, defensive filter and cache, and
  publish on the same bus.  Detectors are outside the model: the candidates they produce
  are inputs.  \<open>hidden_probe\<close> stands for the hidden-liquidity analyzer: whether it reports a
  hidden level of a symbol near a price.
\<close>

record TapeReading =
  pattern_cooldown :: PatternCooldown
  quality_filter :: SignalQualityFilter
  defensive_filter :: defensive_config
  sp_current_books :: "(string \<times> OrderBook) list"
  pc_current_books :: "(string \<times> OrderBook) list"
  trade_cache :: TradeMemoryCache
  confirmation :: confirmation_config
  pending_patterns :: "(nat \<times> PendingPattern) list"
  next_pattern_id :: nat
  hidden_probe :: "string \<Rightarrow> real \<Rightarrow> bool"
  bus :: "(datetime \<times> event) list"
  sp_signals_filtered :: nat
  sp_signals_emitted :: nat
  sp_manipulation_detected :: nat
  sp_patterns_published :: nat
  pc_signals_emitted :: nat
  pc_manipulation_detected :: nat
  last_confirmation_check :: datetime

definition publish :: "TapeReading \<Rightarrow> datetime \<Rightarrow> event \<Rightarrow> TapeReading" where
  "publish st now e = st\<lparr>bus := bus st @ [(now, e)]\<rparr>"

definition requires_confirmation :: "confirmation_config \<Rightarrow> string \<Rightarrow> bool" where
  "requires_confirmation cfg pattern =
     (if \<not> enabled cfg then False else dict_get (patterns cfg) pattern \<noteq> None)"

definition build_confirmation_criteria :: "string \<Rightarrow> details \<Rightarrow> pattern_params \<Rightarrow> criteria" where
  "build_confirmation_criteria pattern pdata cfg =
     (if pattern = ''ESCORA_DETECTADA'' then
        AbsorptionCriteria (opt_int (pc_min_tests cfg) 2) (opt_real (pc_test_threshold cfg) 0.7)
          (opt_real (d_level_num pdata) 0) (opt_int (d_volume pdata) 0) 0 []
      else if pattern = ''DIVERGENCIA_ALTA'' \<or> pattern = ''DIVERGENCIA_BAIXA'' then
        DivergenceCriteria (opt_int (pc_confirmation_bars cfg) 3)
          (case pc_price_confirmation cfg of None \<Rightarrow> True | Some b \<Rightarrow> b)
          (opt_real (d_price pdata) 0) 0
      else if pattern = ''MOMENTUM_EXTREMO'' then
        MomentumCriteria (case pc_requires_continuation cfg of None \<Rightarrow> True | Some b \<Rightarrow> b)
          (opt_real (pc_min_continuation_cvd cfg) 50) (d_direction pdata)
      else if pattern = ''INSTITUTIONAL_FOOTPRINT'' then
        InstitutionalCriteria (opt_real (pc_min_persistence cfg) 30)
          (opt_real (pc_volume_threshold cfg) 0.3) 0
      else if pattern = ''HIDDEN_LIQUIDITY'' then
        HiddenCriteria (opt_int (pc_reload_confirmations cfg) 2)
          (case d_hidden_levels pdata of None \<Rightarrow> [] | Some ls \<Rightarrow> ls) 0
      else NoCriteria)"

text \<open>The entry \<^verbatim>\<open>min\<close> picks: the first one with the least creation time.\<close>

fun oldest_pending :: "(nat \<times> PendingPattern) list \<Rightarrow> (nat \<times> PendingPattern) option" where
  "oldest_pending [] = None"
| "oldest_pending (p # ps) =
     (case oldest_pending ps of
        None \<Rightarrow> Some p
      | Some q \<Rightarrow> if created_at (snd q) < created_at (snd p) then Some q else Some p)"

text \<open>
  \<^verbatim>\<open>add_pending_pattern\<close>; a fresh number stands for the random identifier.  \<^verbatim>\<open>min\<close> of an
  empty dictionary raises \<^verbatim>\<open>ValueError\<close>.
\<close>

definition add_pending_pattern ::
  "TapeReading \<Rightarrow> string \<Rightarrow> string \<Rightarrow> details \<Rightarrow> datetime \<Rightarrow> py_error + TapeReading" where
  "add_pending_pattern st pattern symbol pdata now =
     (let cfg = confirmation st;
          full = (int (length (pending_patterns st)) \<ge> max_pending cfg)
      in if full \<and> pending_patterns st = [] then Inl ValueError
         else
           (let kept = (if full then
                          (case oldest_pending (pending_patterns st) of
                             Some q \<Rightarrow> filter (\<lambda>p. fst p \<noteq> fst q) (pending_patterns st)
                           | None \<Rightarrow> pending_patterns st)
                        else pending_patterns st);
                pattern_config = (case dict_get (patterns cfg) pattern of
                                    Some pc \<Rightarrow> pc
                                  | None \<Rightarrow> no_params\<lparr>pc_timeout := Some (default_timeout cfg)\<rparr>);
                tmo = opt_int (pc_timeout pattern_config) (default_timeout cfg);
                pending = \<lparr>pp_pattern = pattern, pp_symbol = symbol, pp_data = pdata,
                           created_at = now, expires_at = now + tmo * us_per_second,
                           confirmation_criteria =
                             build_confirmation_criteria pattern pdata pattern_config,
                           attempts = 0, last_check = None\<rparr>
            in Inr (st\<lparr>pending_patterns := kept @ [(next_pattern_id st, pending)],
                       next_pattern_id := Suc (next_pattern_id st)\<rparr>)))"

text \<open>The trades \<^verbatim>\<open>self.cache.get_recent_trades(symbol, count)\<close> returns, and the cache after
  the call.\<close>

definition fetch_recent :: "TradeMemoryCache \<Rightarrow> string \<Rightarrow> int \<Rightarrow> Trade list \<times> TradeMemoryCache" where
  "fetch_recent c symbol count =
     (let (r, c') = get_recent_trades c symbol count in (list_at c' r, c'))"

text \<open>
  Modelled from the spec: the CVD calculator (\<^verbatim>\<open>calculate_cvd_for_trades\<close>) is not among the
  sources; the cumulative volume delta of a list of trades is the signed sum of their
  volumes, a buy counting positive and a sell negative.
\<close>

definition calculate_cvd_for_trades :: "Trade list \<Rightarrow> int" where
  "calculate_cvd_for_trades ts =
     sum_list (map (\<lambda>t. case tr_side t of BUY \<Rightarrow> tr_volume t | SELL \<Rightarrow> - tr_volume t
                        | UNKNOWN \<Rightarrow> 0) ts)"

definition absorption_step :: "real \<Rightarrow> int \<Rightarrow> real \<Rightarrow> int \<times> int list \<Rightarrow> Trade \<Rightarrow> int \<times> int list" where
  "absorption_step lvl original_volume test_threshold acc trade =
     (if \<bar>tr_price trade - lvl\<bar> \<le> 0.5 then
        (if real_of_int (tr_volume trade) \<ge> real_of_int original_volume * test_threshold
         then fst acc + 1 else fst acc,
         snd acc @ [tr_volume trade])
      else acc)"

text \<open>
  \<^verbatim>\<open>_check_pattern_confirmation\<close> with the five checks it dispatches to: whether the pattern
  is confirmed, its criteria after the check, and the cache after the reads.  The criteria
  of a pending pattern are those built for its pattern name, and the symbol is one the
  service keeps analyzers for (\<^verbatim>\<open>WDO\<close>, \<^verbatim>\<open>DOL\<close>).
\<close>

definition check_pattern_confirmation ::
  "TapeReading \<Rightarrow> PendingPattern \<Rightarrow> bool \<times> criteria \<times> TradeMemoryCache" where
  "check_pattern_confirmation st pending =
     (let pattern = pp_pattern pending; symbol = pp_symbol pending; c = trade_cache st in
      case confirmation_criteria pending of
        AbsorptionCriteria min_tests test_threshold lvl original_volume test_count test_volumes \<Rightarrow>
          (if pattern = ''ESCORA_DETECTADA'' then
             (let (recent_trades, c') = fetch_recent c symbol 100;
                  (count', volumes') =
                     foldl (absorption_step lvl original_volume test_threshold)
                       (test_count, test_volumes) (py_from (- 20) recent_trades)
              in (count' \<ge> min_tests,
                  AbsorptionCriteria min_tests test_threshold lvl original_volume count' volumes',
                  c'))
           else (False, confirmation_criteria pending, c))
      | DivergenceCriteria confirmation_bars price_confirmation original_price bars_checked \<Rightarrow>
          (if pattern = ''DIVERGENCIA_ALTA'' \<or> pattern = ''DIVERGENCIA_BAIXA'' then
             (let (recent_trades, c') = fetch_recent c symbol 50 in
              if length recent_trades < 10 then (False, confirmation_criteria pending, c')
              else
                (let bars = bars_checked + 1;
                     crit = DivergenceCriteria confirmation_bars price_confirmation
                              original_price bars;
                     current_price = tr_price (last recent_trades);
                     price_confirmed =
                       (if pattern = ''DIVERGENCIA_ALTA''
                        then current_price \<ge> original_price * 0.999
                        else current_price \<le> original_price * 1.001)
                 in if price_confirmation \<and> \<not> price_confirmed then (False, crit, c')
                    else (bars \<ge> confirmation_bars, crit, c')))
           else (False, confirmation_criteria pending, c))
      | MomentumCriteria requires_continuation min_continuation_cvd original_direction \<Rightarrow>
          (if pattern = ''MOMENTUM_EXTREMO'' then
             (if \<not> requires_continuation then (True, confirmation_criteria pending, c)
              else
                (let (recent_trades, c') = fetch_recent c symbol 50;
                     cvd = real_of_int (calculate_cvd_for_trades recent_trades)
                 in (if original_direction = Some ''COMPRA'' then cvd \<ge> min_continuation_cvd
                     else cvd \<le> - min_continuation_cvd,
                     confirmation_criteria pending, c')))
           else (False, confirmation_criteria pending, c))
      | InstitutionalCriteria min_persistence volume_threshold persistence_checks \<Rightarrow>
          (if pattern = ''INSTITUTIONAL_FOOTPRINT'' then
             (let checks = persistence_checks + 1;
                  crit = InstitutionalCriteria min_persistence volume_threshold checks;
                  (recent_trades, c') = fetch_recent c symbol 100
              in if recent_trades = [] then (False, crit, c')
                 else
                   (let total_volume = sum_list (map tr_volume recent_trades);
                        institutional_volume = sum_list (map tr_volume
                           (filter (\<lambda>t. 50 \<le> tr_volume t \<and> tr_volume t \<le> 1000) recent_trades));
                        inst_ratio = (if total_volume > 0
                                      then real_of_int institutional_volume / real_of_int total_volume
                                      else 0)
                    in (inst_ratio \<ge> volume_threshold \<and>
                        real_of_int (checks * 10) \<ge> min_persistence, crit, c')))
           else (False, confirmation_criteria pending, c))
      | HiddenCriteria reload_confirmations original_levels confirmed_reloads \<Rightarrow>
          (if pattern = ''HIDDEN_LIQUIDITY'' then
             (case original_levels of
                [] \<Rightarrow> (False, confirmation_criteria pending, c)
              | lvl # _ \<Rightarrow>
                  (let reloads = (if hidden_probe st symbol lvl then confirmed_reloads + 1
                                  else confirmed_reloads)
                   in (reloads \<ge> reload_confirmations,
                       HiddenCriteria reload_confirmations original_levels reloads, c)))
           else (False, confirmation_criteria pending, c))
      | NoCriteria \<Rightarrow> (False, NoCriteria, c))"

text \<open>
  \<^verbatim>\<open>_emit_confirmed_pattern\<close>: the cooldown is asked with the pattern's own name although the
  signal carries the name with \<^verbatim>\<open>_CONFIRMED\<close> appended; the signal is published by the
  confirmation system itself.  The clock is read once for the call.
\<close>

definition emit_confirmed_pattern ::
  "TapeReading \<Rightarrow> PendingPattern \<Rightarrow> datetime \<Rightarrow> py_error option \<times> TapeReading" where
  "emit_confirmed_pattern st pending now =
     (let signal_data = (pp_data pending)
            \<lparr>d_confirmed := Some True,
             d_confirmation_attempts := Some (attempts pending),
             d_confirmation_time := Some (timedelta_seconds now (created_at pending)),
             d_pattern := Some (pp_pattern pending @ ''_CONFIRMED'')\<rparr>;
          (ok, cd') = can_emit_pattern (pattern_cooldown st) (pp_pattern pending)
                        (pp_symbol pending) now;
          st1 = st\<lparr>pattern_cooldown := cd'\<rparr>
      in if \<not> ok then (None, st1)
         else
           (let confirmed_signal = format_signal signal_data (pp_symbol pending) now;
                book = dict_get (pc_current_books st1) (pp_symbol pending);
                (recent_trades, c') = fetch_recent (trade_cache st1) (pp_symbol pending) 50;
                st2 = st1\<lparr>trade_cache := c'\<rparr>
            in case is_signal_safe (defensive_filter st2) book of
                 Inl e \<Rightarrow> (Some e, st2)
               | Inr (is_safe, info) \<Rightarrow>
                   if is_safe then
                     (None, (publish st2 now (SIGNAL_GENERATED confirmed_signal))
                              \<lparr>pc_signals_emitted := Suc (pc_signals_emitted st2)\<rparr>)
                   else
                     (None, publish (st2\<lparr>pc_manipulation_detected :=
                                             Suc (pc_manipulation_detected st2)\<rparr>) now
                              (MANIPULATION_DETECTED confirmed_signal info (pp_symbol pending)))))"

text \<open>
  One turn of the loop of \<^verbatim>\<open>check_pending_patterns\<close>: the service so far, the pending
  patterns that stay and the patterns confirmed.
\<close>

definition check_one_pending ::
  "datetime \<Rightarrow> TapeReading \<times> (nat \<times> PendingPattern) list \<times> PendingPattern list \<Rightarrow>
   nat \<times> PendingPattern \<Rightarrow> TapeReading \<times> (nat \<times> PendingPattern) list \<times> PendingPattern list" where
  "check_one_pending now acc entry =
     (let (st, kept, confirmed_patterns) = acc;
          (pattern_id, pending) = entry
      in if now > expires_at pending then (st, kept, confirmed_patterns)
         else
           (let (is_confirmed, updated_criteria, c') = check_pattern_confirmation st pending;
                pending' = pending\<lparr>confirmation_criteria := updated_criteria,
                                   attempts := attempts pending + 1,
                                   last_check := Some now\<rparr>;
                st' = st\<lparr>trade_cache := c'\<rparr>
            in if is_confirmed then (st', kept, confirmed_patterns @ [pending'])
               else (st', kept @ [(pattern_id, pending')], confirmed_patterns)))"

text \<open>The confirmed patterns are emitted in turn; an exception ends the loop.\<close>

fun emit_all :: "TapeReading \<Rightarrow> PendingPattern list \<Rightarrow> datetime \<Rightarrow> py_error option \<times> TapeReading" where
  "emit_all st [] now = (None, st)"
| "emit_all st (pending # rest) now =
     (case emit_confirmed_pattern st pending now of
        (Some e, st') \<Rightarrow> (Some e, st')
      | (None, st') \<Rightarrow> emit_all st' rest now)"

definition check_pending_patterns :: "TapeReading \<Rightarrow> datetime \<Rightarrow> py_error option \<times> TapeReading" where
  "check_pending_patterns st now =
     (let (st1, kept, confirmed_patterns) =
            foldl (check_one_pending now) (st, [], []) (pending_patterns st)
      in emit_all (st1\<lparr>pending_patterns := kept\<rparr>) confirmed_patterns now)"

section \<open>Signal processor (application/services/tape\_reading/signal\_processor.py)\<close>

definition calculate_strength :: "string \<Rightarrow> details \<Rightarrow> int" where
  "calculate_strength pattern dt =
     (let strength =
            (if pattern \<in> set [''ABSORPTION_DETECTED'', ''EXHAUSTION_DETECTED'',
                  ''MOMENTUM_EXTREMO'', ''INSTITUTIONAL_FOOTPRINT''] then 8
             else if pattern \<in> set [''ICEBERG'', ''DIVERGENCIA_ALTA'', ''DIVERGENCIA_BAIXA'',
                  ''TRAP_DETECTED''] then 7
             else 5)
      in if opt_int (d_volume dt) 0 > 2000 then min (strength + 2) 10
         else if opt_int (d_volume dt) 0 > 1000 then min (strength + 1) 10
         else strength)"

text \<open>
  The body of the second loop of \<^verbatim>\<open>process_raw_signals\<close> for one candidate that passed the
  quality filter: the exception raised if any, the signal appended to the list returned if
  any, and the service afterwards.  The clock is read once for the candidate.
\<close>

definition process_candidate ::
  "TapeReading \<Rightarrow> details \<Rightarrow> datetime \<Rightarrow> py_error option \<times> Signal list \<times> TapeReading" where
  "process_candidate st signal_data now =
     (let symbol = (case d_symbol signal_data of None \<Rightarrow> ''WDO'' | Some x \<Rightarrow> x);
          pattern = (case d_pattern signal_data of None \<Rightarrow> ''UNKNOWN'' | Some x \<Rightarrow> x);
          sd1 = signal_data\<lparr>d_strength := Some (calculate_strength pattern signal_data)\<rparr>;
          st1 = (publish st now (PATTERN_DETECTED sd1))
                  \<lparr>sp_patterns_published := Suc (sp_patterns_published st)\<rparr>
      in if requires_confirmation (confirmation st1) pattern then
           (case add_pending_pattern st1 pattern symbol sd1 now of
              Inl e \<Rightarrow> (Some e, [], st1)
            | Inr st2 \<Rightarrow> (None, [], st2))
         else
           (let (ok, cd') = can_emit_pattern (pattern_cooldown st1) pattern symbol now;
                st2 = st1\<lparr>pattern_cooldown := cd'\<rparr>
            in if \<not> ok then (None, [], st2)
               else
                 (let sg = format_signal sd1 symbol now;
                      book = dict_get (sp_current_books st2) symbol;
                      (recent_trades, c') = fetch_recent (trade_cache st2) symbol 50;
                      st3 = st2\<lparr>trade_cache := c'\<rparr>
                  in case is_signal_safe (defensive_filter st3) book of
                       Inl e \<Rightarrow> (Some e, [], st3)
                     | Inr (is_safe, info) \<Rightarrow>
                         if is_safe then
                           (None, [sg], st3\<lparr>sp_signals_emitted := Suc (sp_signals_emitted st3)\<rparr>)
                         else
                           (None, [],
                            publish (st3\<lparr>sp_manipulation_detected :=
                                            Suc (sp_manipulation_detected st3)\<rparr>) now
                              (MANIPULATION_DETECTED sg info symbol)))))"

text \<open>The first loop: the candidates that pass the quality filter, in order.\<close>

definition quality_step ::
  "details list \<times> nat \<times> SignalQualityFilter \<Rightarrow> details \<Rightarrow>
   details list \<times> nat \<times> SignalQualityFilter" where
  "quality_step acc signal_data =
     (let (passed_signals, dropped, qf) = acc;
          ((ok, score), qf') = evaluate_signal_quality qf signal_data
      in if ok then (passed_signals @ [signal_data], dropped, qf')
         else (passed_signals, Suc dropped, qf'))"

text \<open>The second loop; an exception leaves it, and no list is returned.\<close>

fun process_candidates ::
  "TapeReading \<Rightarrow> details list \<Rightarrow> datetime \<Rightarrow> Signal list \<Rightarrow>
   py_error option \<times> Signal list \<times> TapeReading" where
  "process_candidates st [] now acc = (None, acc, st)"
| "process_candidates st (signal_data # rest) now acc =
     (case process_candidate st signal_data now of
        (Some e, sigs, st') \<Rightarrow> (Some e, [], st')
      | (None, sigs, st') \<Rightarrow> process_candidates st' rest now (acc @ sigs))"

definition process_raw_signals ::
  "TapeReading \<Rightarrow> details list \<Rightarrow> datetime \<Rightarrow> py_error option \<times> Signal list \<times> TapeReading" where
  "process_raw_signals st raw_signals now =
     (let (quality_filtered_signals, dropped, qf') =
            foldl quality_step ([], 0, quality_filter st) raw_signals;
          st1 = st\<lparr>quality_filter := qf', sp_signals_filtered := sp_signals_filtered st + dropped\<rparr>
      in process_candidates st1 quality_filtered_signals now [])"

section \<open>Tape-reading service and the market-data handler
  (application/services/tape\_reading/service.py, application/orchestration/handlers.py)\<close>

text \<open>\<^verbatim>\<open>_check_pending_patterns_if_needed\<close>; times are in microseconds, the interval in seconds.\<close>

definition check_pending_patterns_if_needed ::
  "TapeReading \<Rightarrow> datetime \<Rightarrow> py_error option \<times> TapeReading" where
  "check_pending_patterns_if_needed st now =
     (if real_of_int (now - last_confirmation_check st) / 1000000
           \<ge> check_interval (confirmation st) then
        (case check_pending_patterns st now of
           (Some e, st') \<Rightarrow> (Some e, st')
         | (None, st') \<Rightarrow> (None, st'\<lparr>last_confirmation_check := now\<rparr>))
      else (None, st))"

text \<open>
  \<^verbatim>\<open>process_new_trades\<close>, given the trades, those of them \<^verbatim>\<open>_organize_trades_by_symbol\<close>
  keeps, by symbol, and the candidates the detectors produce from them: the trades are
  cached, the pending patterns checked, the candidates processed.
\<close>

definition process_new_trades ::
  "TapeReading \<Rightarrow> Trade list \<Rightarrow> (string \<times> Trade list) list \<Rightarrow> details list \<Rightarrow> datetime \<Rightarrow>
   py_error option \<times> Signal list \<times> TapeReading" where
  "process_new_trades st trades trades_by_symbol raw_signals now =
     (if trades = [] then (None, [], st)
      else
        (let st1 = st\<lparr>trade_cache := run_adds (trade_cache st) trades_by_symbol\<rparr>;
             (err, st2) = (if enabled (confirmation st1)
                           then check_pending_patterns_if_needed st1 now else (None, st1))
         in case err of
              Some e \<Rightarrow> (Some e, [], st2)
            | None \<Rightarrow> process_raw_signals st2 raw_signals now))"

text \<open>
  Step 3 of \<^verbatim>\<open>handle_market_data\<close>: every signal returned is published as
  \<^verbatim>\<open>SIGNAL_GENERATED\<close>, itself or the confluence signal \<open>confluence\<close> finds for it; an
  exception is caught and logged, and nothing is published.
\<close>

definition publish_returned ::
  "(Signal \<Rightarrow> Signal option) \<Rightarrow> datetime \<Rightarrow> py_error option \<times> Signal list \<times> TapeReading \<Rightarrow>
   TapeReading" where
  "publish_returned confluence now res =
     (case res of
        (Some e, sigs, st') \<Rightarrow> st'
      | (None, sigs, st') \<Rightarrow>
          foldl (\<lambda>s sg. publish s now
                   (SIGNAL_GENERATED (case confluence sg of Some c \<Rightarrow> c | None \<Rightarrow> sg))) st' sigs)"

definition handle_new_trades ::
  "(Signal \<Rightarrow> Signal option) \<Rightarrow> TapeReading \<Rightarrow> Trade list \<Rightarrow> (string \<times> Trade list) list \<Rightarrow>
   details list \<Rightarrow> datetime \<Rightarrow> TapeReading" where
  "handle_new_trades confluence st trades trades_by_symbol raw_signals now =
     (if trades = [] then st
      else publish_returned confluence now
             (process_new_trades st trades trades_by_symbol raw_signals now))"

text \<open>The events of a kind in a log.\<close>

definition generated_events :: "(datetime \<times> event) list \<Rightarrow> (datetime \<times> Signal) list" where
  "generated_events evs =
     List.map_filter (\<lambda>(t, e). case e of SIGNAL_GENERATED sg \<Rightarrow> Some (t, sg) | _ \<Rightarrow> None) evs"

definition manipulation_events :: "(datetime \<times> event) list \<Rightarrow> (datetime \<times> Signal) list" where
  "manipulation_events evs =
     List.map_filter (\<lambda>(t, e). case e of MANIPULATION_DETECTED sg info symbol \<Rightarrow> Some (t, sg)
                              | _ \<Rightarrow> None) evs"

text \<open>
  A candidate reaches the defensive filter when it passes the quality filter, is not
  diverted to confirmation and passes the cooldown filter.
\<close>

definition candidate_symbol :: "details \<Rightarrow> string" where
  "candidate_symbol signal_data = (case d_symbol signal_data of None \<Rightarrow> ''WDO'' | Some x \<Rightarrow> x)"

definition candidate_pattern :: "details \<Rightarrow> string" where
  "candidate_pattern signal_data =
     (case d_pattern signal_data of None \<Rightarrow> ''UNKNOWN'' | Some x \<Rightarrow> x)"




text \<open>The signal the processor formats for a candidate.\<close>

definition candidate_signal :: "details \<Rightarrow> datetime \<Rightarrow> Signal" where
  "candidate_signal signal_data now =
     format_signal
       (signal_data\<lparr>d_strength :=
          Some (calculate_strength (candidate_pattern signal_data) signal_data)\<rparr>)
       (candidate_symbol signal_data) now"

text \<open>The service as \<^verbatim>\<open>_setup_components\<close> builds it, around a cache and a confirmation
  configuration, started at a time.\<close>

definition new_tape_reading ::
  "TradeMemoryCache \<Rightarrow> confirmation_config \<Rightarrow> datetime \<Rightarrow> TapeReading" where
  "new_tape_reading c cfg started =
     \<lparr>pattern_cooldown = new_cooldown default_cooldowns,
      quality_filter = \<lparr>min_quality_score = 0.35, filtered_count = 0, passed_count = 0\<rparr>,
      defensive_filter = default_defensive_config,
      sp_current_books = [], pc_current_books = [],
      trade_cache = c, confirmation = cfg, pending_patterns = [], next_pattern_id = 0,
      hidden_probe = (\<lambda>symbol price. False), bus = [],
      sp_signals_filtered = 0, sp_signals_emitted = 0, sp_manipulation_detected = 0,
      sp_patterns_published = 0, pc_signals_emitted = 0, pc_manipulation_detected = 0,
      last_confirmation_check = started\<rparr>"

definition default_confirmation :: confirmation_config where
  "default_confirmation =
     \<lparr>enabled = True, max_pending = 50, default_timeout = 30, check_interval = 1.0,
      patterns = []\<rparr>"

text \<open>\<^verbatim>\<open>update_book\<close> of the service hands the book to both parts.\<close>

definition update_book :: "TapeReading \<Rightarrow> string \<Rightarrow> OrderBook \<Rightarrow> TapeReading" where
  "update_book st symbol book =
     st\<lparr>sp_current_books := dict_set (sp_current_books st) symbol book,
        pc_current_books := dict_set (pc_current_books st) symbol book\<rparr>"

text \<open>Examples: a book with five bids of nearly equal size, a candidate, and the service
  holding that book.\<close>

definition layered_book :: OrderBook where
  "layered_book =
     \<lparr>bids = [\<lparr>bl_price = 5500, bl_volume = 250\<rparr>, \<lparr>bl_price = 5499.5, bl_volume = 255\<rparr>,
              \<lparr>bl_price = 5499, bl_volume = 248\<rparr>, \<lparr>bl_price = 5498.5, bl_volume = 252\<rparr>,
              \<lparr>bl_price = 5498, bl_volume = 251\<rparr>],
      asks = [\<lparr>bl_price = 5500.5, bl_volume = 180\<rparr>, \<lparr>bl_price = 5501, bl_volume = 320\<rparr>,
              \<lparr>bl_price = 5501.5, bl_volume = 95\<rparr>]\<rparr>"

definition example_candidate :: details where
  "example_candidate =
     no_details\<lparr>d_symbol := Some ''WDO'', d_pattern := Some ''PRESSAO_COMPRA'',
                d_price := Some 5500, d_volume := Some 300, d_ratio := Some 0.95\<rparr>"

definition example_service :: TapeReading where
  "example_service = new_tape_reading (new_cache 1000) default_confirmation 0"


text \<open>
  Example: the confirmation of \<^verbatim>\<open>INSTITUTIONAL_FOOTPRINT\<close> is configured with the default
  criteria, and the cache holds three trades of 100, 200 and 300 contracts.
\<close>

definition institutional_confirmation :: confirmation_config where
  "institutional_confirmation =
     default_confirmation\<lparr>patterns := [(''INSTITUTIONAL_FOOTPRINT'', no_params)]\<rparr>"

definition institutional_candidate :: details where
  "institutional_candidate =
     no_details\<lparr>d_symbol := Some ''WDO'', d_pattern := Some ''INSTITUTIONAL_FOOTPRINT'',
                d_price := Some 5500, d_volume := Some 300\<rparr>"

definition institutional_service :: TapeReading where
  "institutional_service =
     new_tape_reading
       (add_trades (new_cache 1000) ''WDO''
          [example_trade 100, example_trade 200, example_trade 300])
       institutional_confirmation 0"

text \<open>The footprint enters confirmation at time 0.\<close>

definition pending_institutional :: TapeReading where
  "pending_institutional =
     (case add_pending_pattern institutional_service ''INSTITUTIONAL_FOOTPRINT'' ''WDO''
             institutional_candidate 0 of
        Inr st \<Rightarrow> st
      | Inl e \<Rightarrow> institutional_service)"

text \<open>The service after one call of \<^verbatim>\<open>_check_pending_patterns_if_needed\<close>.\<close>

definition confirmation_tick :: "TapeReading \<Rightarrow> datetime \<Rightarrow> TapeReading" where
  "confirmation_tick st now = snd (check_pending_patterns_if_needed st now)"

text \<open>The example service after it processed the example candidate at time 0.\<close>

definition after_first_emission :: TapeReading where
  "after_first_emission = snd (snd (process_raw_signals example_service [example_candidate] 0))"

chapter \<open>Verification\<close>

section \<open>Adaptive factors and limits\<close>

lemma clamp_factor_range: "0.3 \<le> clamp_factor x \<and> clamp_factor x \<le> 2.0"
  by (simp add: clamp_factor_def)

lemma normalise_in_range: "factors_in_range (normalise_adjustments a)"
  using clamp_factor_range by (simp add: factors_in_range_def normalise_adjustments_def)

lemma dict_get_set: "dict_get (dict_set d k v) k' = (if k' = k then Some v else dict_get d k')"
  by (simp add: dict_get_def dict_set_def update_conv')

lemma calculate_in_range:
  "calculate_regime_adjustments d = Inr f \<Longrightarrow> factors_in_range f"
  by (auto simp: calculate_regime_adjustments_def Let_def normalise_in_range
      split: option.splits)

lemma calculate_total:
  "dict_get d ''WDO'' = Some w \<Longrightarrow> dict_get d ''DOL'' = Some l \<Longrightarrow>
   \<exists>f. calculate_regime_adjustments d = Inr f"
  by (simp add: calculate_regime_adjustments_def Let_def)

lemma apply_keeps_factors:
  "regime_adjustment_factors (apply_regime_adjustments s) = regime_adjustment_factors s"
  by (simp add: apply_regime_adjustments_def Let_def)

lemma apply_keeps_regimes:
  "current_market_regime (apply_regime_adjustments s) = current_market_regime s"
  by (simp add: apply_regime_adjustments_def Let_def)

lemma update_market_regime_ok:
  assumes "adaptive_ok s"
  shows "\<exists>changed s'. update_market_regime s symbol r = Inr (changed, s') \<and> adaptive_ok s'"
proof (cases "dict_get (current_market_regime s) symbol = Some r")
  case True
  then have "update_market_regime s symbol r = Inr (False, s)"
    by (simp add: update_market_regime_def)
  then show ?thesis using assms by blast
next
  case False
  let ?d = "dict_set (current_market_regime s) symbol r"
  from assms have "dict_get ?d ''WDO'' \<noteq> None" and "dict_get ?d ''DOL'' \<noteq> None"
    by (simp_all add: adaptive_ok_def dict_get_set)
  then obtain w l where
    w: "dict_get ?d ''WDO'' = Some w" and l: "dict_get ?d ''DOL'' = Some l"
    by blast
  from calculate_total [OF w l] obtain f where f: "calculate_regime_adjustments ?d = Inr f"
    by blast
  have "factors_in_range f" using f by (rule calculate_in_range)
  then show ?thesis using False f w l
    by (auto simp: update_market_regime_def Let_def adaptive_ok_def apply_keeps_factors
        apply_keeps_regimes)
qed

lemma new_adaptive_ok: "adaptive_ok (new_adaptive a b c d e q)"
proof -
  obtain f where f: "calculate_regime_adjustments initial_regimes = Inr f"
    using calculate_total [of initial_regimes RANGING RANGING]
    by (auto simp: initial_regimes_def dict_get_def)
  then have "factors_in_range f" by (rule calculate_in_range)
  then show ?thesis using f
    by (simp add: new_adaptive_def Let_def adaptive_ok_def)
      (simp add: initial_regimes_def dict_get_def)
qed

text \<open>
  C6.  The adjustment factors stored by the adaptive risk system lie in \<open>[0.3, 2.0]\<close>: this
  holds in the state the constructor builds, every call of \<^verbatim>\<open>update_market_regime\<close> on a
  state where it holds returns (it does not raise) a state where it holds again, and for
  every pair of regimes of the two instruments the computed factors are in the interval.
\<close>

theorem regime_factors_bounded:
  "adaptive_ok (new_adaptive a b c d e q) \<and>
   (adaptive_ok s \<longrightarrow>
      (\<exists>changed s'. update_market_regime s symbol r = Inr (changed, s') \<and> adaptive_ok s')) \<and>
   (\<exists>f. calculate_regime_adjustments [(''WDO'', w), (''DOL'', l)] = Inr f \<and> factors_in_range f)"
proof (intro conjI impI)
  show "adaptive_ok (new_adaptive a b c d e q)" by (rule new_adaptive_ok)
next
  assume "adaptive_ok s"
  then show "\<exists>changed s'. update_market_regime s symbol r = Inr (changed, s') \<and> adaptive_ok s'"
    by (rule update_market_regime_ok)
next
  obtain f where f: "calculate_regime_adjustments [(''WDO'', w), (''DOL'', l)] = Inr f"
    using calculate_total [of "[(''WDO'', w), (''DOL'', l)]" w l]
    by (auto simp: dict_get_def)
  then show "\<exists>f. calculate_regime_adjustments [(''WDO'', w), (''DOL'', l)] = Inr f \<and>
      factors_in_range f"
    using calculate_in_range by blast
qed

theorem regime_factors_bounded_witness:
  "adaptive_ok default_adaptive \<and>
   (\<exists>changed s'. update_market_regime default_adaptive ''WDO'' VOLATILE = Inr (changed, s') \<and>
      adaptive_ok s') \<and>
   (\<exists>f. calculate_regime_adjustments [(''WDO'', QUIET), (''DOL'', QUIET)] = Inr f \<and>
      factors_in_range f \<and> signal_frequency f = 0.3)"
proof -
  have ok: "adaptive_ok default_adaptive"
    unfolding default_adaptive_def by (rule new_adaptive_ok)
  have q: "calculate_regime_adjustments [(''WDO'', QUIET), (''DOL'', QUIET)] =
      Inr \<lparr>signal_frequency = 0.3, quality_threshold = 2.0, concurrent_signals = 0.3,
           timeout = 1.0, circuit_breaker_sensitivity = 1.0\<rparr>"
    by (simp add: calculate_regime_adjustments_def dict_get_def neutral_adjustments_def
        normalise_adjustments_def clamp_factor_def)
  from regime_factors_bounded [of 10 100 20 5 60 "0.35" default_adaptive "''WDO''" VOLATILE QUIET QUIET]
    ok q
  show ?thesis by simp
qed

text \<open>
  C10.  After \<^verbatim>\<open>_apply_regime_adjustments\<close> the limit \<^verbatim>\<open>max_concurrent_signals\<close> is at least 1,
  for every base value and every adjustment factor, also when the truncated product of the
  two is 0.
\<close>

theorem concurrent_limit_at_least_one:
  "1 \<le> max_concurrent_signals (current_limits (apply_regime_adjustments s))"
  by (simp add: apply_regime_adjustments_def Let_def)

theorem concurrent_limit_at_least_one_witness:
  "py_int (real_of_int 1 * 0.3) = 0 \<and>
   1 \<le> max_concurrent_signals (current_limits (apply_regime_adjustments
      ((new_adaptive 10 100 20 1 60 0.35)
        \<lparr>regime_adjustment_factors := neutral_adjustments\<lparr>concurrent_signals := 0.3\<rparr>\<rparr>)))"
proof -
  have "py_int (real_of_int 1 * 0.3) = 0" by (simp add: py_int_def)
  then show ?thesis
    using concurrent_limit_at_least_one [of "(new_adaptive 10 100 20 1 60 0.35)
        \<lparr>regime_adjustment_factors := neutral_adjustments\<lparr>concurrent_signals := 0.3\<rparr>\<rparr>"]
    by simp
qed

section \<open>Confluence signals\<close>

lemma check_proximity_Some:
  "check_proximity tol lv price = Some (n, l) \<Longrightarrow>
   \<exists>l0. (n, l0) \<in> set lv \<and> \<bar>price - lvl_price l0\<bar> \<le> tol \<and>
     lvl_price l = lvl_price l0 \<and> lvl_type l = lvl_type l0"
proof (induction lv)
  case Nil
  then show ?case by simp
next
  case (Cons a lv)
  obtain nome nivel where a: "a = (nome, nivel)" by (cases a)
  show ?case
  proof (cases "\<bar>price - lvl_price nivel\<bar> \<le> tol")
    case True
    with Cons.prems a have "n = nome" and "lvl_price l = lvl_price nivel"
      and "lvl_type l = lvl_type nivel"
      by (auto simp: Let_def)
    with True a show ?thesis by auto
  next
    case False
    with Cons.prems a have "check_proximity tol lv price = Some (n, l)"
      by (simp add: Let_def)
    from Cons.IH [OF this] show ?thesis by auto
  qed
qed

lemma details_create:
  "details (create_confluence_signal an tp price smb lname li r st vol ts dir now) =
   no_details
     \<lparr>d_symbol := Some smb, d_pattern := Some tp,
      d_pattern_normalized := Some (normalize_pattern_name tp),
      d_price := Some price, d_level := Some lname,
      d_level_price := Some (lvl_price li),
      d_level_type := Some (lvl_type li), d_action := Some (acao r),
      d_confidence :=
        Some (ptax_confidence (is_ptax_window (janelas_ptax an) ts) (confianca r)),
      d_stop := Some (fst (calculate_stops_and_targets (acao r) price (niveis_calculados an))),
      d_target := Some (snd (calculate_stops_and_targets (acao r) price (niveis_calculados an))),
      d_strength := Some st, d_volume := Some vol,
      d_is_ptax_window := Some (is_ptax_window (janelas_ptax an) ts), d_timestamp := Some ts,
      d_rule_applied := Some r, d_direction := dir\<rparr>"
  by (simp add: create_confluence_signal_def Let_def split_beta)

lemma source_create:
  "source (create_confluence_signal an tp price smb lname li r st vol ts dir now) = CONFLUENCE"
  by (simp add: create_confluence_signal_def Let_def split_beta)

text \<open>
  C1.  With the default thresholds (minimum force 7, minimum confidence 0.65, extreme force
  9), every signal \<^verbatim>\<open>analyze_confluence\<close> returns has source CONFLUENCE and names a level of
  the grid whose price is within \<^verbatim>\<open>tolerancia_proximidade\<close> of the candidate price; the
  candidate strength is at least 7; the confidence of the applied rule (before the PTAX
  bonus) is at least 0.65; and when \<^verbatim>\<open>find_rule\<close> finds no rule for the pattern at that level,
  the strength is at least 9 and the applied rule is SELL at SOFRER\_2X or BUY at SOFGRE with
  confidence 0.85.
\<close>

theorem confluence_signal_valid:
  assumes emitted:
      "analyze_confluence an tape_pattern price symbol strength volume ts direction now = Some sg"
    and force: "minimum_force (matrix an) = 7"
    and conf: "minimum_confidence (matrix an) = 0.65"
    and extreme: "extreme_force_threshold (matrix an) = 9"
  shows "source sg = CONFLUENCE \<and>
     (\<exists>name lvl r.
        (name, lvl) \<in> set (niveis_calculados an) \<and>
        \<bar>price - lvl_price lvl\<bar> \<le> tolerancia_proximidade an \<and>
        d_price (details sg) = Some price \<and>
        d_level (details sg) = Some name \<and>
        d_level_price (details sg) = Some (lvl_price lvl) \<and>
        d_strength (details sg) = Some strength \<and> 7 \<le> strength \<and>
        d_rule_applied (details sg) = Some r \<and> d_action (details sg) = Some (acao r) \<and>
        0.65 \<le> confianca r \<and>
        (find_rule (matrix an) (normalize_pattern_name tape_pattern) name
            (case direction of None \<Rightarrow> [] | Some d \<Rightarrow> d) = None \<longrightarrow>
         9 \<le> strength \<and> confianca r = 0.85 \<and>
           (name = ''SOFRER_2X'' \<and> acao r = ''VENDA'' \<or>
            name = ''SOFGRE'' \<and> acao r = ''COMPRA'')))"
proof -
  let ?dir = "case direction of None \<Rightarrow> [] | Some d \<Rightarrow> d"
  from emitted obtain name info where
    prox: "check_proximity (tolerancia_proximidade an) (niveis_calculados an) price =
      Some (name, info)"
    by (auto simp: analyze_confluence_def split: option.splits)
  let ?found = "find_rule (matrix an) (normalize_pattern_name tape_pattern) name ?dir"
  let ?rule = "case ?found of None \<Rightarrow> check_extreme_conditions (matrix an) strength name
     | Some r \<Rightarrow> Some r"
  from emitted prox obtain r where
    valid: "is_valid_signal (matrix an) ?rule strength" and r: "?rule = Some r" and
    sg: "sg = create_confluence_signal an tape_pattern price symbol name info r strength volume
      ts direction now"
    by (auto simp: analyze_confluence_def Let_def split: option.splits if_splits)
  from check_proximity_Some [OF prox] obtain l0 where
    l0: "(name, l0) \<in> set (niveis_calculados an)"
      "\<bar>price - lvl_price l0\<bar> \<le> tolerancia_proximidade an"
      "lvl_price info = lvl_price l0"
    by blast
  from valid r force conf have gates: "7 \<le> strength" "0.65 \<le> confianca r"
    by (auto simp: is_valid_signal_def split: if_splits)
  have ext: "?found = None \<longrightarrow>
      9 \<le> strength \<and> confianca r = 0.85 \<and>
        (name = ''SOFRER_2X'' \<and> acao r = ''VENDA'' \<or> name = ''SOFGRE'' \<and> acao r = ''COMPRA'')"
  proof
    assume "?found = None"
    with r have "check_extreme_conditions (matrix an) strength name = Some r" by simp
    then show "9 \<le> strength \<and> confianca r = 0.85 \<and>
        (name = ''SOFRER_2X'' \<and> acao r = ''VENDA'' \<or> name = ''SOFGRE'' \<and> acao r = ''COMPRA'')"
      using extreme by (auto simp: check_extreme_conditions_def split: if_splits)
  qed
  show ?thesis
    unfolding sg source_create details_create
    using l0 gates ext
    by (intro conjI exI [of _ name] exI [of _ l0] exI [of _ r]) (simp_all add: no_details_def)
qed

lemma normalize_example: "normalize_pattern_name ''pressao_compra'' = ''PRESSAO_COMPRA''"
  by code_simp

lemma find_rule_example: "find_rule default_matrix ''PRESSAO_COMPRA'' ''SOFGRE'' [] = None"
  by (simp add: find_rule_def default_matrix_def default_rules_def dict_get_def)

lemma check_proximity_example:
  "check_proximity 3 example_grid 5491 =
   Some (''SOFGRE'', (mk_level ''SOFGRE'' 5490 ''SUPORTE'' 3)
     \<lparr>lvl_distance := Some 1, lvl_position := Some ''ACIMA''\<rparr>)"
  by (simp add: example_grid_def mk_level_def)

lemma analyze_confluence_example:
  "analyze_confluence (default_analyzer example_grid) ''pressao_compra'' 5491 ''WDO'' 9 2500
      (hhmm 14 0) None (hhmm 14 0) =
   Some (create_confluence_signal (default_analyzer example_grid) ''pressao_compra'' 5491 ''WDO''
      ''SOFGRE'' ((mk_level ''SOFGRE'' 5490 ''SUPORTE'' 3)
         \<lparr>lvl_distance := Some 1, lvl_position := Some ''ACIMA''\<rparr>)
      \<lparr>acao = ''COMPRA'', confianca = 0.85, desc = ''Forca extrema em suporte maximo''\<rparr>
      9 2500 (hhmm 14 0) None (hhmm 14 0))"
  by (simp add: analyze_confluence_def default_analyzer_def check_proximity_example
      normalize_example find_rule_example check_extreme_conditions_def is_valid_signal_def)
    (simp add: default_matrix_def)

theorem confluence_signal_valid_witness:
  "\<exists>sg. analyze_confluence (default_analyzer example_grid) ''pressao_compra'' 5491 ''WDO'' 9 2500
      (hhmm 14 0) None (hhmm 14 0) = Some sg \<and>
     minimum_force (matrix (default_analyzer example_grid)) = 7 \<and>
     minimum_confidence (matrix (default_analyzer example_grid)) = 0.65 \<and>
     extreme_force_threshold (matrix (default_analyzer example_grid)) = 9 \<and>
     source sg = CONFLUENCE \<and>
     (\<exists>name lvl r.
        (name, lvl) \<in> set example_grid \<and> \<bar>5491 - lvl_price lvl\<bar> \<le> 3 \<and>
        d_level (details sg) = Some name \<and> d_rule_applied (details sg) = Some r \<and>
        0.65 \<le> confianca r)"
proof -
  let ?an = "default_analyzer example_grid"
  have th: "minimum_force (matrix ?an) = 7" "minimum_confidence (matrix ?an) = 0.65"
    "extreme_force_threshold (matrix ?an) = 9"
    by (simp_all add: default_analyzer_def default_matrix_def)
  have lv: "niveis_calculados ?an = example_grid" "tolerancia_proximidade ?an = 3"
    by (simp_all add: default_analyzer_def)
  from confluence_signal_valid [OF analyze_confluence_example th]
  show ?thesis unfolding lv using th analyze_confluence_example by blast
qed

text \<open>
  C5 as stated fails: a rule confidence in \<open>[0, 1]\<close> above 0.95 (here 1.0, a rule that a
  configured matrix may hold) is lowered to 0.95 by the PTAX bonus.
\<close>

theorem ptax_bonus_counterexample:
  "0 \<le> confianca (mk_rule ''COMPRA'' 1 ''configured'') \<and>
   confianca (mk_rule ''COMPRA'' 1 ''configured'') \<le> 1 \<and>
   is_ptax_window default_janelas_ptax (hhmm 10 5) \<and>
   d_confidence (details (create_confluence_signal (default_analyzer example_grid) ''TRAP''
      5500 ''WDO'' ''DEVENDO'' (mk_level ''DEVENDO'' 5500 ''SUPORTE'' 2)
      (mk_rule ''COMPRA'' 1 ''configured'') 8 100 (hhmm 10 5) None (hhmm 10 5))) = Some 0.95 \<and>
   (0.95 :: real) < confianca (mk_rule ''COMPRA'' 1 ''configured'')"
  by (simp add: details_create mk_rule_def no_details_def default_analyzer_def
      ptax_confidence_def is_ptax_window_def default_janelas_ptax_def hhmm_def time_of_def
      us_per_day_def us_per_second_def)

text \<open>
  C5, amended.  For every rule confidence in \<open>[0, 0.95]\<close> the confidence of the signal built by
  \<^verbatim>\<open>_create_confluence_signal\<close> is never below the rule's confidence and never above 0.95;
  inside a PTAX window it is \<open>min (c + 0.1) 0.95\<close>, outside it is the rule's confidence
  unchanged.
\<close>

theorem ptax_bonus_monotone:
  assumes "0 \<le> confianca r" and "confianca r \<le> 0.95"
  shows "\<exists>c. d_confidence (details (create_confluence_signal an tp price smb lname li r st vol
           ts dir now)) = Some c \<and>
         confianca r \<le> c \<and> c \<le> 0.95 \<and>
         c = (if is_ptax_window (janelas_ptax an) ts then min (confianca r + 0.1) 0.95
              else confianca r)"
  using assms by (auto simp: details_create no_details_def ptax_confidence_def min_def)

theorem ptax_bonus_monotone_witness:
  "0 \<le> confianca (mk_rule ''COMPRA'' 0.9 ''Squeeze'') \<and>
   confianca (mk_rule ''COMPRA'' 0.9 ''Squeeze'') \<le> 0.95 \<and>
   is_ptax_window (janelas_ptax (default_analyzer example_grid)) (hhmm 10 5) \<and>
   (\<exists>c. d_confidence (details (create_confluence_signal (default_analyzer example_grid)
           ''SQUEEZE'' 5490 ''WDO'' ''SOFGRE'' (mk_level ''SOFGRE'' 5490 ''SUPORTE'' 3)
           (mk_rule ''COMPRA'' 0.9 ''Squeeze'') 8 100 (hhmm 10 5) None (hhmm 10 5))) = Some c \<and>
      confianca (mk_rule ''COMPRA'' 0.9 ''Squeeze'') \<le> c \<and> c \<le> 0.95 \<and> c = 0.95)"
proof -
  have a: "0 \<le> confianca (mk_rule ''COMPRA'' 0.9 ''Squeeze'')"
    and b: "confianca (mk_rule ''COMPRA'' 0.9 ''Squeeze'') \<le> 0.95"
    by (simp_all add: mk_rule_def)
  have w: "is_ptax_window (janelas_ptax (default_analyzer example_grid)) (hhmm 10 5)"
    by (simp add: default_analyzer_def is_ptax_window_def default_janelas_ptax_def hhmm_def
        time_of_def us_per_day_def us_per_second_def)
  have m: "min (confianca (mk_rule ''COMPRA'' 0.9 ''Squeeze'') + 0.1) 0.95 = (0.95 :: real)"
    by (simp add: mk_rule_def)
  from ptax_bonus_monotone [OF a b, of "default_analyzer example_grid" "''SQUEEZE''" 5490
      "''WDO''" "''SOFGRE''" "mk_level ''SOFGRE'' 5490 ''SUPORTE'' 3" 8 100 "hhmm 10 5" None
      "hhmm 10 5"]
  show ?thesis using a b w m by auto
qed

section \<open>Risk manager\<close>

lemma timedelta_seconds_within:
  assumes "t \<le> now" and "now - t < c * us_per_second"
  shows "timedelta_seconds now t < c"
proof -
  let ?d = "(now - t) div 1000000"
  have "?d < c" using assms(2) by (simp add: us_per_second_def div_less_iff_less_mult)
  moreover have "0 \<le> ?d" using assms(1) by (simp add: pos_imp_zdiv_nonneg_iff)
  then have "?d mod 86400 \<le> ?d" by (rule zmod_le_nonneg_dividend)
  ultimately show ?thesis by (simp add: timedelta_seconds_def us_per_second_def)
qed

lemma map_filter_nonempty:
  "x \<in> set xs \<Longrightarrow> f x \<noteq> None \<Longrightarrow> List.map_filter f xs \<noteq> []"
  by (auto simp: map_filter_def filter_empty_conv)

lemma check_all_hit:
  assumes "b \<in> set bs" and "snd (check_breaker now b) \<noteq> None"
  shows "\<not> all_clear (fst (check_all now bs))"
proof -
  have "check_breaker now b \<in> set (map (check_breaker now) bs)" using assms(1) by simp
  from map_filter_nonempty [OF this, of snd] assms(2)
  show ?thesis by (simp add: check_all_def Let_def)
qed

lemma evaluate_signal_blocked:
  assumes "\<not> all_clear (fst (check_all now (circuit_breakers m)))"
  shows "fst (fst (evaluate_signal m sg now)) = False \<and>
         risk_level (snd (fst (evaluate_signal m sg now))) = CRITICAL \<and>
         published (snd (evaluate_signal m sg now)) = published m \<and>
         circuit_breakers (snd (evaluate_signal m sg now)) = snd (check_all now (circuit_breakers m))"
  using assms by (simp add: evaluate_signal_def Let_def split_beta)

text \<open>
  The rejection while a breaker cools down: while a breaker is active and the time since its trigger is below its
  cooldown, \<^verbatim>\<open>evaluate_signal\<close> rejects with CRITICAL risk and publishes nothing.
\<close>

lemma breaker_in_cooldown_rejects:
  assumes "(name, st) \<in> set (circuit_breakers m)" and "active st"
    and "triggered_at st = Some t" and "t \<le> now"
    and "now - t < cooldown_seconds st * us_per_second"
  shows "fst (fst (evaluate_signal m sg now)) = False \<and>
         risk_level (snd (fst (evaluate_signal m sg now))) = CRITICAL \<and>
         published (snd (evaluate_signal m sg now)) = published m"
proof -
  have "timedelta_seconds now t < cooldown_seconds st"
    using assms(4,5) by (rule timedelta_seconds_within)
  then have "snd (check_breaker now (name, st)) \<noteq> None"
    using assms(2,3) by (simp add: check_breaker_def Let_def)
  from check_all_hit [OF assms(1) this] evaluate_signal_blocked show ?thesis by blast
qed

lemma stale_breakers:
  "circuit_breakers stale_breaker_manager =
     [(''frequency'', idle_breaker 300), (''quality'', idle_breaker 300),
      (''drawdown'', \<lparr>active = True, triggered_at = Some 0, reason = ''Drawdown 2.5%'',
          cooldown_seconds = 300\<rparr>),
      (''consecutive_losses'', idle_breaker 300),
      (''emergency'', idle_breaker 300), (''exposure'', idle_breaker 60)]"
  by (simp add: stale_breaker_manager_def default_risk_manager_def trigger_def new_breakers_def
      dict_get_def dict_set_def idle_breaker_def)

lemma stale_check_late:
  "check_all (86410 * us_per_second) (circuit_breakers stale_breaker_manager) =
     (\<lparr>all_clear = False, triggered = [(''drawdown'', ''Drawdown 2.5%'', Some 290)]\<rparr>,
      circuit_breakers stale_breaker_manager)"
  unfolding stale_breakers
  by (simp add: check_all_def check_breaker_def Let_def idle_breaker_def timedelta_seconds_def
      us_per_second_def map_filter_def)

lemma stale_check_early:
  "check_all (310 * us_per_second) (circuit_breakers stale_breaker_manager) =
     (\<lparr>all_clear = True, triggered = []\<rparr>, new_breakers 300)"
  unfolding stale_breakers
  by (simp add: check_all_def check_breaker_def Let_def idle_breaker_def timedelta_seconds_def
      us_per_second_def map_filter_def reset_breaker_def new_breakers_def)

text \<open>
  C2, second part, on the code.  The drawdown breaker (cooldown 300 s) is triggered at time 0
  and checked one day and ten seconds later: \<^verbatim>\<open>check_all\<close> compares \<^verbatim>\<open>(now - triggered_at).seconds\<close>,
  which is 10, with the cooldown, so the breaker is not reset although its cooldown elapsed
  long ago, and the signal is rejected with CRITICAL risk.  Checked 310 s after the trigger,
  the same breaker is reset.
\<close>

theorem breaker_not_reset_after_a_day:
  "total_seconds (86410 * us_per_second) 0 \<ge> 300 \<and>
   fst (evaluate_signal stale_breaker_manager example_signal (86410 * us_per_second)) =
     (False, \<lparr>approved = False, risk_level = CRITICAL, quality = POOR,
        reasons = [BreakerTriggered ''drawdown'' ''Drawdown 2.5%'' (Some 290)],
        recommendations = [], as_timestamp = 86410 * us_per_second\<rparr>) \<and>
   dict_get (circuit_breakers
       (snd (evaluate_signal stale_breaker_manager example_signal (86410 * us_per_second))))
     ''drawdown'' =
     Some \<lparr>active = True, triggered_at = Some 0, reason = ''Drawdown 2.5%'',
        cooldown_seconds = 300\<rparr> \<and>
   snd (check_all (310 * us_per_second) (circuit_breakers stale_breaker_manager)) =
     new_breakers 300"
proof -
  have "total_seconds (86410 * us_per_second) 0 \<ge> 300"
    by (simp add: total_seconds_def us_per_second_def)
  moreover have "dict_get (circuit_breakers stale_breaker_manager) ''drawdown'' =
     Some \<lparr>active = True, triggered_at = Some 0, reason = ''Drawdown 2.5%'',
        cooldown_seconds = 300\<rparr>"
    unfolding stale_breakers by (simp add: dict_get_def)
  ultimately show ?thesis
    by (simp add: evaluate_signal_def Let_def stale_check_late stale_check_early)
qed

lemma contextual_score:
  "cr_score (evaluate_contextual_risk sg ctx now) =
     (case system_risk_level ctx of CRITICAL \<Rightarrow> 3 | HIGH \<Rightarrow> 2 | MEDIUM \<Rightarrow> 1 | LOW \<Rightarrow> 0) +
     (if ctx_current_drawdown ctx > 1.5 then 2 else 0) +
     (if hour_of now < 10 \<or> hour_of now > 16 then 1 else 0) +
     (case d_cvd_roc (details sg) of Some c \<Rightarrow> if \<bar>c\<bar> > 150 then 1 else 0 | None \<Rightarrow> 0)"
  by (cases "system_risk_level ctx")
    (simp_all add: evaluate_contextual_risk_def Let_def split_beta split: option.split)

lemma contextual_level:
  "cr_level (evaluate_contextual_risk sg ctx now) =
     level_of_score (cr_score (evaluate_contextual_risk sg ctx now))"
  by (simp add: evaluate_contextual_risk_def Let_def split_beta level_of_score_def)

lemma evaluate_signal_contextual:
  assumes "reaches_contextual m sg now"
  shows "fst (fst (evaluate_signal m sg now)) \<longleftrightarrow>
     cr_level (evaluate_contextual_risk sg (risk_context_of (before_contextual m sg now)) now)
       \<notin> {HIGH, CRITICAL}"
  using assms
  by (simp add: reaches_contextual_def evaluate_signal_def before_contextual_def Let_def
      split_beta)

text \<open>
  C8 as stated fails at two points.  At 16:30, outside 10:00 to 16:00, the code adds no
  point for the time of day (it tests \<^verbatim>\<open>hour < 10 or hour > 16\<close>): with a HIGH system risk
  the score is 2 and the level MEDIUM, where the specification's score is 3 and its level
  HIGH.  With a configured maximum drawdown of 4.0 and a drawdown of 2.0, far from the
  maximum, the code still adds 2 points, since it compares with the constant 1.5.
\<close>

theorem contextual_risk_counterexample:
  "cr_score (evaluate_contextual_risk example_signal
      \<lparr>system_risk_level = HIGH, ctx_current_drawdown = 0, ctx_consecutive_losses = 3,
       market_regime = initial_regimes\<rparr> (hhmm 16 30)) = 2 \<and>
   cr_level (evaluate_contextual_risk example_signal
      \<lparr>system_risk_level = HIGH, ctx_current_drawdown = 0, ctx_consecutive_losses = 3,
       market_regime = initial_regimes\<rparr> (hhmm 16 30)) = MEDIUM \<and>
   spec_contextual_score 2.0 HIGH 0 (hhmm 16 30) (d_cvd_roc (details example_signal)) = 3 \<and>
   level_of_score 3 = HIGH \<and>
   cr_score (evaluate_contextual_risk example_signal
      \<lparr>system_risk_level = LOW, ctx_current_drawdown = 2.0, ctx_consecutive_losses = 0,
       market_regime = initial_regimes\<rparr> (hhmm 11 0)) = 2 \<and>
   spec_contextual_score 4.0 LOW 2.0 (hhmm 11 0) (d_cvd_roc (details example_signal)) = 0"
  by (simp add: contextual_score contextual_level level_of_score_def spec_contextual_score_def
      example_signal_def no_details_def hour_of_def time_of_def hhmm_def us_per_day_def
      us_per_second_def)

text \<open>
  C8, amended.  The contextual score is 3, 2 or 1 for a system risk level of CRITICAL, HIGH or
  MEDIUM, plus 2 when the drawdown is above the constant 1.5, plus 1 when the hour of the
  day is below 10 or above 16, plus 1 when the signal carries a CVD rate of change of
  absolute value above 150; the level is CRITICAL iff the score is at least 4, HIGH iff it
  is 3, MEDIUM iff it is 2, LOW iff it is below 2; and a signal that has passed the breaker,
  exposure, frequency and quality steps is approved iff the level is neither HIGH nor
  CRITICAL.
\<close>

theorem contextual_risk_rule:
  "cr_score (evaluate_contextual_risk sg ctx now) =
     (case system_risk_level ctx of CRITICAL \<Rightarrow> 3 | HIGH \<Rightarrow> 2 | MEDIUM \<Rightarrow> 1 | LOW \<Rightarrow> 0) +
     (if ctx_current_drawdown ctx > 1.5 then 2 else 0) +
     (if hour_of now < 10 \<or> hour_of now > 16 then 1 else 0) +
     (case d_cvd_roc (details sg) of Some c \<Rightarrow> if \<bar>c\<bar> > 150 then 1 else 0 | None \<Rightarrow> 0) \<and>
   (cr_level (evaluate_contextual_risk sg ctx now) = CRITICAL \<longleftrightarrow>
      4 \<le> cr_score (evaluate_contextual_risk sg ctx now)) \<and>
   (cr_level (evaluate_contextual_risk sg ctx now) = HIGH \<longleftrightarrow>
      cr_score (evaluate_contextual_risk sg ctx now) = 3) \<and>
   (cr_level (evaluate_contextual_risk sg ctx now) = MEDIUM \<longleftrightarrow>
      cr_score (evaluate_contextual_risk sg ctx now) = 2) \<and>
   (cr_level (evaluate_contextual_risk sg ctx now) = LOW \<longleftrightarrow>
      cr_score (evaluate_contextual_risk sg ctx now) < 2) \<and>
   (reaches_contextual m sg now \<longrightarrow>
      (fst (fst (evaluate_signal m sg now)) \<longleftrightarrow>
       cr_level (evaluate_contextual_risk sg (risk_context_of (before_contextual m sg now)) now)
         \<notin> {HIGH, CRITICAL}))"
proof -
  have lv: "cr_level (evaluate_contextual_risk sg ctx now) =
      level_of_score (cr_score (evaluate_contextual_risk sg ctx now))"
    by (rule contextual_level)
  show ?thesis
    using contextual_score [of sg ctx now] evaluate_signal_contextual [of m sg now]
    unfolding lv by (simp add: level_of_score_def)
qed

lemma default_adaptive_limits:
  "current_limits default_adaptive =
     \<lparr>max_signals_per_minute = 10, max_signals_per_hour = 100, max_confluence_per_hour = 20,
      max_concurrent_signals = 5, signal_timeout = 60, lim_quality_threshold = 0.35\<rparr>"
  by (simp add: default_adaptive_def new_adaptive_def Let_def split: sum.split)

lemma default_adaptive_regimes: "current_market_regime default_adaptive = initial_regimes"
  by (simp add: default_adaptive_def new_adaptive_def Let_def split: sum.split)

lemma example_reaches:
  "reaches_contextual default_risk_manager example_signal (hhmm 11 0)"
  by (simp add: reaches_contextual_def default_risk_manager_def default_adaptive_limits
      new_tracker_def new_evaluator_def new_breakers_def idle_breaker_def
      check_all_def check_breaker_def map_filter_def Let_def check_signal_frequency_def
      within_limits_def evaluate_quality_def example_signal_def no_details_def)

lemma example_context:
  "risk_context_of (before_contextual default_risk_manager example_signal (hhmm 11 0)) =
     \<lparr>system_risk_level = LOW, ctx_current_drawdown = 0, ctx_consecutive_losses = 0,
      market_regime = initial_regimes\<rparr>"
  by (simp add: risk_context_of_def before_contextual_def default_risk_manager_def
      default_adaptive_regimes new_tracker_def new_evaluator_def new_breakers_def
      idle_breaker_def check_all_def check_breaker_def map_filter_def Let_def
      calculate_current_risk_level_def get_active_breakers_def)
    (simp add: initial_regimes_def)

theorem contextual_risk_rule_witness:
  "reaches_contextual default_risk_manager example_signal (hhmm 11 0) \<and>
   cr_score (evaluate_contextual_risk example_signal
     (risk_context_of (before_contextual default_risk_manager example_signal (hhmm 11 0)))
     (hhmm 11 0)) = 0 \<and>
   cr_level (evaluate_contextual_risk example_signal
     (risk_context_of (before_contextual default_risk_manager example_signal (hhmm 11 0)))
     (hhmm 11 0)) = LOW \<and>
   fst (fst (evaluate_signal default_risk_manager example_signal (hhmm 11 0)))"
proof -
  have h: "hour_of (hhmm 11 0) = 11"
    by (simp add: hour_of_def time_of_def hhmm_def us_per_day_def us_per_second_def)
  have c: "d_cvd_roc (details example_signal) = None"
    by (simp add: example_signal_def no_details_def)
  from contextual_risk_rule [of example_signal
      "risk_context_of (before_contextual default_risk_manager example_signal (hhmm 11 0))"
      "hhmm 11 0" default_risk_manager]
  show ?thesis using example_reaches unfolding example_context by (simp add: h c)
qed

section \<open>Trade cache\<close>

lemma deque_append_eq: "deque_append n xs x = drop (Suc (length xs) - n) (xs @ [x])"
  by (simp add: deque_append_def Let_def)

lemma deque_extend_eq:
  "length xs \<le> n \<Longrightarrow> deque_extend n xs ys = drop (length xs + length ys - n) (xs @ ys)"
proof (induction ys arbitrary: xs)
  case Nil
  then show ?case by (simp add: deque_extend_def)
next
  case (Cons y ys)
  let ?zs = "deque_append n xs y"
  have len: "length ?zs \<le> n" by (simp add: deque_append_eq)
  have "deque_extend n xs (y # ys) = deque_extend n ?zs ys" by (simp add: deque_extend_def)
  also have "\<dots> = drop (length ?zs + length ys - n) (?zs @ ys)" using len by (rule Cons.IH)
  also have "\<dots> = drop (length xs + length (y # ys) - n) (xs @ y # ys)"
  proof (cases "length xs < n")
    case True
    then have "?zs = xs @ [y]" by (simp add: deque_append_eq)
    then show ?thesis by simp
  next
    case False
    with Cons.prems have n: "length xs = n" by simp
    show ?thesis
    proof (cases xs)
      case Nil
      with n show ?thesis by (simp add: deque_append_eq)
    next
      case (Cons a as)
      with n have "?zs = as @ [y]" by (simp add: deque_append_eq)
      with Cons n show ?thesis by simp
    qed
  qed
  finally show ?case .
qed

lemma dict_set_new: "dict_get d k = None \<Longrightarrow> dict_set d k v = d @ [(k, v)]"
  by (induction d) (auto simp: dict_get_def dict_set_def)

lemma dict_get_mem: "dict_get d k = Some v \<Longrightarrow> (k, v) \<in> set d"
  by (simp add: dict_get_def map_of_SomeD)

lemma dict_get_distinct: "distinct (map fst d) \<Longrightarrow> (k, v) \<in> set d \<Longrightarrow> dict_get d k = Some v"
  by (simp add: dict_get_def)

lemma cache_ok_iff:
  "cache_ok c \<longleftrightarrow>
     distinct (map fst (cache c)) \<and> distinct (map snd (cache c)) \<and>
     (\<forall>(symbol, r) \<in> set (cache c). r < next_ref c \<and>
        (\<exists>items. heap c r = Some (Deque items (max_size c)) \<and> length items \<le> max_size c))"
proof -
  have "\<And>r. (case heap c r of Some (Deque items n) \<Rightarrow> n = max_size c \<and> length items \<le> n
           | _ \<Rightarrow> False) \<longleftrightarrow>
        (\<exists>items. heap c r = Some (Deque items (max_size c)) \<and> length items \<le> max_size c)"
    by (auto split: option.splits obj.splits)
  then show ?thesis by (simp add: cache_ok_def list_all_iff split_beta)
qed

lemma add_trades_nil: "add_trades c symbol [] = c"
  by (simp add: add_trades_def)

lemma add_trades_known:
  assumes "trades \<noteq> []" and "dict_get (cache c) symbol = Some r"
    and "heap c r = Some (Deque items n)"
  shows "add_trades c symbol trades =
    c\<lparr>heap := (heap c)(r \<mapsto> Deque (deque_extend n items trades) n),
      stats := (stats c)\<lparr>evictions := evictions (stats c) +
                  evicted_count (max_size c) (length items) (length trades),
                additions := additions (stats c) + length trades\<rparr>,
      total_added := dict_set (total_added c) symbol
         ((case dict_get (total_added c) symbol of None \<Rightarrow> 0 | Some k \<Rightarrow> k) + length trades)\<rparr>"
  using assms by (simp add: add_trades_def Let_def evicted_count_def)

lemma add_trades_new:
  assumes "trades \<noteq> []" and "dict_get (cache c) symbol = None"
  shows "add_trades c symbol trades =
    c\<lparr>heap := (heap c)(next_ref c \<mapsto> Deque (deque_extend (max_size c) [] trades) (max_size c)),
      next_ref := Suc (next_ref c),
      cache := cache c @ [(symbol, next_ref c)],
      stats := (stats c)\<lparr>evictions := evictions (stats c) +
                  evicted_count (max_size c) 0 (length trades),
                additions := additions (stats c) + length trades\<rparr>,
      total_added := dict_set (dict_set (total_added c) symbol 0) symbol (length trades)\<rparr>"
proof -
  have g: "dict_get (dict_set (cache c) symbol (next_ref c)) symbol = Some (next_ref c)"
    by (simp add: dict_get_set)
  have s: "dict_set (cache c) symbol (next_ref c) = cache c @ [(symbol, next_ref c)]"
    using assms(2) by (rule dict_set_new)
  show ?thesis
    using assms g unfolding s [symmetric]
    by (simp add: add_trades_def Let_def evicted_count_def alloc_def dict_get_set)
qed

lemma cache_ok_entry:
  assumes "cache_ok c" and "dict_get (cache c) symbol = Some r"
  shows "\<exists>items. heap c r = Some (Deque items (max_size c)) \<and> length items \<le> max_size c \<and>
           r < next_ref c"
  using assms dict_get_mem [OF assms(2)] by (auto simp: cache_ok_iff)

lemma cached_known:
  "dict_get (cache c) symbol = Some r \<Longrightarrow> heap c r = Some (Deque items n) \<Longrightarrow>
   cached_trades c symbol = items"
  by (simp add: cached_trades_def deque_of_def)

lemma cached_unknown: "dict_get (cache c) symbol = None \<Longrightarrow> cached_trades c symbol = []"
  by (simp add: cached_trades_def deque_of_def)

lemma get_size_cached: "get_size c symbol = length (cached_trades c symbol)"
  by (simp add: get_size_def cached_trades_def split: option.splits)

lemma cache_ok_size: "cache_ok c \<Longrightarrow> get_size c symbol \<le> max_size c"
proof (cases "dict_get (cache c) symbol")
  case None
  then show ?thesis by (simp add: get_size_cached cached_unknown)
next
  case (Some r)
  assume "cache_ok c"
  from cache_ok_entry [OF this Some] Some show ?thesis
    by (auto simp: get_size_cached cached_known)
qed

lemma add_trades_known_ok:
  assumes ok: "cache_ok c" and ne: "trades \<noteq> []" and r: "dict_get (cache c) symbol = Some r"
  shows "cache_ok (add_trades c symbol trades) \<and>
     cache (add_trades c symbol trades) = cache c \<and>
     next_ref (add_trades c symbol trades) = next_ref c \<and>
     max_size (add_trades c symbol trades) = max_size c \<and>
     (\<forall>r'. r' \<noteq> r \<longrightarrow> heap (add_trades c symbol trades) r' = heap c r') \<and>
     cached_trades (add_trades c symbol trades) symbol =
       drop (length (cached_trades c symbol) + length trades - max_size c)
         (cached_trades c symbol @ trades) \<and>
     evictions (stats (add_trades c symbol trades)) =
       evictions (stats c) +
       evicted_count (max_size c) (length (cached_trades c symbol)) (length trades)"
proof -
  from cache_ok_entry [OF ok r] obtain items where
    h: "heap c r = Some (Deque items (max_size c))" and len: "length items \<le> max_size c"
    by blast
  let ?new = "deque_extend (max_size c) items trades"
  have eq: "add_trades c symbol trades =
    c\<lparr>heap := (heap c)(r \<mapsto> Deque ?new (max_size c)),
      stats := (stats c)\<lparr>evictions := evictions (stats c) +
                  evicted_count (max_size c) (length items) (length trades),
                additions := additions (stats c) + length trades\<rparr>,
      total_added := dict_set (total_added c) symbol
         ((case dict_get (total_added c) symbol of None \<Rightarrow> 0 | Some k \<Rightarrow> k) + length trades)\<rparr>"
    using ne r h by (rule add_trades_known)
  have new: "?new = drop (length items + length trades - max_size c) (items @ trades)"
    using len by (rule deque_extend_eq)
  have old: "cached_trades c symbol = items" using r h by (rule cached_known)
  have ok': "cache_ok (add_trades c symbol trades)"
    unfolding eq using ok new by (auto simp: cache_ok_iff)
  have c': "cached_trades (add_trades c symbol trades) symbol = ?new"
    unfolding eq using r by (simp add: cached_trades_def deque_of_def)
  show ?thesis using ok' c' new old unfolding eq by simp
qed

lemma add_trades_new_ok:
  assumes ok: "cache_ok c" and ne: "trades \<noteq> []" and r: "dict_get (cache c) symbol = None"
  shows "cache_ok (add_trades c symbol trades) \<and>
     cache (add_trades c symbol trades) = cache c @ [(symbol, next_ref c)] \<and>
     next_ref (add_trades c symbol trades) = Suc (next_ref c) \<and>
     max_size (add_trades c symbol trades) = max_size c \<and>
     (\<forall>r'. r' \<noteq> next_ref c \<longrightarrow> heap (add_trades c symbol trades) r' = heap c r') \<and>
     cached_trades (add_trades c symbol trades) symbol =
       drop (length (cached_trades c symbol) + length trades - max_size c)
         (cached_trades c symbol @ trades) \<and>
     evictions (stats (add_trades c symbol trades)) =
       evictions (stats c) +
       evicted_count (max_size c) (length (cached_trades c symbol)) (length trades)"
proof -
  let ?new = "deque_extend (max_size c) [] trades"
  note eq = add_trades_new [OF ne r]
  have new: "?new = drop (length ([] :: Trade list) + length trades - max_size c) ([] @ trades)"
    by (rule deque_extend_eq) simp
  have old: "cached_trades c symbol = []" using r by (rule cached_unknown)
  have fresh: "symbol \<notin> fst ` set (cache c)"
    using r by (simp add: dict_get_def map_of_eq_None_iff)
  have refs: "\<forall>(s, r') \<in> set (cache c). r' < next_ref c" using ok by (auto simp: cache_ok_iff)
  then have nr: "next_ref c \<notin> snd ` set (cache c)" by force
  have ok': "cache_ok (add_trades c symbol trades)"
    unfolding eq using ok new fresh nr refs
    by (auto simp: cache_ok_iff less_Suc_eq)
  have g: "dict_get (cache c @ [(symbol, next_ref c)]) symbol = Some (next_ref c)"
    using r by (simp add: dict_get_def map_add_def)
  have c': "cached_trades (add_trades c symbol trades) symbol = ?new"
    unfolding eq using g by (simp add: cached_trades_def deque_of_def)
  show ?thesis using ok' c' new old unfolding eq by simp
qed

lemma add_trades_effect:
  assumes ok: "cache_ok c"
  shows "cache_ok (add_trades c symbol trades) \<and>
     max_size (add_trades c symbol trades) = max_size c \<and>
     next_ref c \<le> next_ref (add_trades c symbol trades) \<and>
     cached_trades (add_trades c symbol trades) symbol =
       drop (length (cached_trades c symbol) + length trades - max_size c)
         (cached_trades c symbol @ trades) \<and>
     evictions (stats (add_trades c symbol trades)) =
       evictions (stats c) +
       evicted_count (max_size c) (length (cached_trades c symbol)) (length trades)"
proof (cases "trades = []")
  case True
  have "length (cached_trades c symbol) \<le> max_size c"
    using cache_ok_size [OF ok, of symbol] by (simp add: get_size_cached)
  with True ok show ?thesis by (simp add: add_trades_nil evicted_count_def)
next
  case False
  show ?thesis
  proof (cases "dict_get (cache c) symbol")
    case None
    from add_trades_new_ok [OF ok False None] show ?thesis by simp
  next
    case (Some r)
    from add_trades_known_ok [OF ok False Some] show ?thesis by simp
  qed
qed

lemma add_trades_heap_other:
  assumes ok: "cache_ok c" and old: "r < next_ref c" and out: "r \<notin> snd ` set (cache c)"
  shows "heap (add_trades c symbol trades) r = heap c r \<and>
         r \<notin> snd ` set (cache (add_trades c symbol trades))"
proof (cases "trades = []")
  case True
  with out show ?thesis by (simp add: add_trades_nil)
next
  case False
  show ?thesis
  proof (cases "dict_get (cache c) symbol")
    case None
    from add_trades_new_ok [OF ok False None] old out show ?thesis by auto
  next
    case (Some r')
    from dict_get_mem [OF Some] out have "r \<noteq> r'" by force
    with add_trades_known_ok [OF ok False Some] out show ?thesis by auto
  qed
qed

lemma run_adds_ok:
  "cache_ok c \<Longrightarrow>
   cache_ok (run_adds c batches) \<and> max_size (run_adds c batches) = max_size c \<and>
   next_ref c \<le> next_ref (run_adds c batches)"
proof (induction batches arbitrary: c)
  case Nil
  then show ?case by (simp add: run_adds_def)
next
  case (Cons b batches)
  obtain symbol trades where b: "b = (symbol, trades)" by (cases b)
  from add_trades_effect [OF Cons.prems, of symbol trades]
  have ok1: "cache_ok (add_trades c symbol trades)"
    and m1: "max_size (add_trades c symbol trades) = max_size c"
    and n1: "next_ref c \<le> next_ref (add_trades c symbol trades)"
    by simp_all
  have step: "run_adds c (b # batches) = run_adds (add_trades c symbol trades) batches"
    by (simp add: run_adds_def b)
  from Cons.IH [OF ok1] m1 n1 show ?case unfolding step by simp
qed

lemma run_adds_heap_other:
  "cache_ok c \<Longrightarrow> r < next_ref c \<Longrightarrow> r \<notin> snd ` set (cache c) \<Longrightarrow>
   heap (run_adds c batches) r = heap c r"
proof (induction batches arbitrary: c)
  case Nil
  then show ?case by (simp add: run_adds_def)
next
  case (Cons b batches)
  obtain symbol trades where b: "b = (symbol, trades)" by (cases b)
  let ?c1 = "add_trades c symbol trades"
  from add_trades_effect [OF Cons.prems(1), of symbol trades]
  have ok1: "cache_ok ?c1" and n1: "next_ref c \<le> next_ref ?c1" by simp_all
  from add_trades_heap_other [OF Cons.prems, of symbol trades]
  have h1: "heap ?c1 r = heap c r" and o1: "r \<notin> snd ` set (cache ?c1)" by simp_all
  have r1: "r < next_ref ?c1" using Cons.prems(2) n1 by simp
  have step: "run_adds c (b # batches) = run_adds ?c1 batches"
    by (simp add: run_adds_def b)
  from Cons.IH [OF ok1 r1 o1] h1 show ?case unfolding step by simp
qed

lemma alloc_ok:
  assumes "cache_ok c" and "alloc c (PyList xs) = (r, c')"
  shows "cache_ok c' \<and> r = next_ref c \<and> next_ref c' = Suc r \<and> cache c' = cache c \<and>
     max_size c' = max_size c \<and> stats c' = stats c \<and>
     heap c' r = Some (PyList xs) \<and> r \<notin> snd ` set (cache c') \<and>
     (\<forall>s. cached_trades c' s = cached_trades c s)"
proof -
  from assms(2) have c': "c' = c\<lparr>heap := (heap c)(next_ref c \<mapsto> PyList xs),
      next_ref := Suc (next_ref c)\<rparr>" and r: "r = next_ref c"
    by (auto simp: alloc_def)
  have refs: "\<forall>(s, r') \<in> set (cache c). r' < next_ref c"
    using assms(1) by (auto simp: cache_ok_iff)
  then have nr: "next_ref c \<notin> snd ` set (cache c)" by force
  have ok': "cache_ok c'" unfolding c' using assms(1) nr
    by (auto simp: cache_ok_iff less_Suc_eq)
  have same: "\<forall>s. cached_trades c' s = cached_trades c s"
  proof
    fix s
    show "cached_trades c' s = cached_trades c s"
    proof (cases "dict_get (cache c) s")
      case None
      then show ?thesis unfolding c' by (simp add: cached_trades_def deque_of_def)
    next
      case (Some r')
      from dict_get_mem [OF Some] nr have "r' \<noteq> next_ref c" by force
      with Some show ?thesis unfolding c' by (simp add: cached_trades_def deque_of_def)
    qed
  qed
  show ?thesis using ok' same nr unfolding c' r by simp
qed

lemma cache_ok_stats: "cache_ok (c\<lparr>stats := st\<rparr>) = cache_ok c"
  by (simp add: cache_ok_iff)

lemma cached_trades_stats: "cached_trades (c\<lparr>stats := st\<rparr>) s = cached_trades c s"
  by (cases "dict_get (cache c) s") (simp_all add: cached_trades_def deque_of_def)

lemma py_from_nil: "py_from k [] = []"
  by (simp add: py_from_def)

lemma alloc_list_facts:
  assumes "cache_ok c" and "alloc c (PyList xs) = (r, c')"
  shows "cache_ok c'" and "cache c' = cache c" and "max_size c' = max_size c"
    and "r < next_ref c'" and "r \<notin> snd ` set (cache c')"
    and "cached_trades c' s = cached_trades c s" and "stats c' = stats c"
    and "list_at c' r = xs"
  using alloc_ok [OF assms] by (auto simp: list_at_def)

lemma get_recent_trades_ok:
  assumes ok: "cache_ok c" and g: "get_recent_trades c symbol count = (r, c')"
  shows "cache_ok c' \<and> cache c' = cache c \<and> max_size c' = max_size c \<and>
     r < next_ref c' \<and> r \<notin> snd ` set (cache c') \<and>
     (\<forall>s. cached_trades c' s = cached_trades c s) \<and>
     evictions (stats c') = evictions (stats c) \<and>
     list_at c' r =
       (if count \<ge> int (length (cached_trades c symbol)) then cached_trades c symbol
        else py_from (- count) (cached_trades c symbol))"
proof (cases "deque_of c symbol")
  case None
  let ?c1 = "c\<lparr>stats := (stats c)\<lparr>misses := misses (stats c) + 1\<rparr>\<rparr>"
  from g None have a: "alloc ?c1 (PyList []) = (r, c')"
    by (simp add: get_recent_trades_def)
  have ok1: "cache_ok ?c1" using ok by (simp add: cache_ok_stats)
  have e: "cached_trades c symbol = []" using None by (simp add: cached_trades_def)
  note f = alloc_list_facts [OF ok1 a]
  show ?thesis using f(1-5,7,8) f(6) by (simp add: cached_trades_stats e py_from_nil)
next
  case (Some p)
  obtain items n where p: "p = (items, n)" by (cases p)
  let ?c1 = "c\<lparr>stats := (stats c)\<lparr>hits := hits (stats c) + 1\<rparr>\<rparr>"
  have ok1: "cache_ok ?c1" using ok by (simp add: cache_ok_stats)
  obtain r1 c2 where a1: "alloc ?c1 (PyList items) = (r1, c2)" by (cases "alloc ?c1 (PyList items)")
  have e: "cached_trades c symbol = items" using Some p by (simp add: cached_trades_def)
  note f1 = alloc_list_facts [OF ok1 a1]
  show ?thesis
  proof (cases "count \<ge> int (length items)")
    case True
    with g Some p a1 have "r = r1" and "c' = c2"
      by (simp_all add: get_recent_trades_def Let_def)
    then show ?thesis using f1(1-5,7,8) f1(6) True by (simp add: cached_trades_stats e)
  next
    case False
    with g Some p a1 have a2: "alloc c2 (PyList (py_from (- count) items)) = (r, c')"
      by (simp add: get_recent_trades_def Let_def)
    note f2 = alloc_list_facts [OF f1(1) a2]
    show ?thesis using f2(1-5,7,8) f2(6) f1(2,3,7) f1(6) False
      by (simp add: cached_trades_stats e)
  qed
qed

lemma caller_writes_cached:
  assumes "r \<notin> snd ` set (cache c)"
  shows "cached_trades (caller_writes c r xs) s = cached_trades c s"
proof (cases "dict_get (cache c) s")
  case None
  then show ?thesis by (simp add: cached_trades_def deque_of_def caller_writes_def)
next
  case (Some r')
  from dict_get_mem [OF Some] assms have "r' \<noteq> r" by force
  with Some show ?thesis by (simp add: cached_trades_def deque_of_def caller_writes_def)
qed

lemma displaced_eq:
  "length xs \<le> n \<Longrightarrow> displaced n xs ys = length xs + length ys - n"
proof (induction ys arbitrary: xs)
  case Nil
  then show ?case by simp
next
  case (Cons y ys)
  let ?zs = "deque_append n xs y"
  have len: "length ?zs = min (Suc (length xs)) n" by (simp add: deque_append_eq)
  then have le: "length ?zs \<le> n" by simp
  from Cons.IH [OF le] len Cons.prems show ?case
    by (simp add: dropped_on_append_def min_def)
qed

lemma evicted_count_min:
  "evicted_count cap cur new = min cur (cur + new - cap)"
  by (simp add: evicted_count_def)

lemma new_cache_ok: "cache_ok (new_cache n)"
  by (simp add: cache_ok_def new_cache_def)

lemma example_cache_facts:
  "cache_ok (add_trades (new_cache 3) ''WDO'' [example_trade 1, example_trade 2])"
  "max_size (add_trades (new_cache 3) ''WDO'' [example_trade 1, example_trade 2]) = 3"
  "cached_trades (add_trades (new_cache 3) ''WDO'' [example_trade 1, example_trade 2]) ''WDO'' =
     [example_trade 1, example_trade 2]"
  "evictions (stats (add_trades (new_cache 3) ''WDO'' [example_trade 1, example_trade 2])) = 0"
proof -
  have e0: "cached_trades (new_cache 3) ''WDO'' = []" "evictions (stats (new_cache 3)) = 0"
      "max_size (new_cache 3) = 3"
    by (simp_all add: cached_unknown new_cache_def dict_get_def)
  from add_trades_effect [OF new_cache_ok, of 3 "''WDO''" "[example_trade 1, example_trade 2]"]
  show "cache_ok (add_trades (new_cache 3) ''WDO'' [example_trade 1, example_trade 2])"
  "max_size (add_trades (new_cache 3) ''WDO'' [example_trade 1, example_trade 2]) = 3"
  "cached_trades (add_trades (new_cache 3) ''WDO'' [example_trade 1, example_trade 2]) ''WDO'' =
     [example_trade 1, example_trade 2]"
  "evictions (stats (add_trades (new_cache 3) ''WDO'' [example_trade 1, example_trade 2])) = 0"
    by (simp_all add: e0 evicted_count_def)
qed

text \<open>
  C7, as the code has it.  From a well-formed cache (the constructor builds one): after
  every sequence of \<^verbatim>\<open>add_trades\<close> batches the size of every symbol's buffer is at most the
  capacity; one batch displaces \<open>size + n - capacity\<close> trades from the buffer (none when that
  is negative), the oldest of the old content followed by the batch, and raises the eviction
  counter by the lesser of that number and the size of the buffer before the batch, which is
  the number displaced whenever the batch is no longer than the capacity; and the list
  \<^verbatim>\<open>get_recent_trades\<close> returns is an object none of the cache's deques is, which later
  batches leave unchanged and through which a caller cannot change what the cache holds.
\<close>

theorem trade_cache_invariants:
  assumes ok: "cache_ok c"
  shows "(\<forall>s. get_size (run_adds c batches) s \<le> max_size c) \<and>
     evictions (stats (add_trades c symbol trades)) =
       evictions (stats c) +
       min (length (cached_trades c symbol))
           (displaced (max_size c) (cached_trades c symbol) trades) \<and>
     displaced (max_size c) (cached_trades c symbol) trades =
       length (cached_trades c symbol) + length trades - max_size c \<and>
     cached_trades (add_trades c symbol trades) symbol =
       drop (displaced (max_size c) (cached_trades c symbol) trades)
         (cached_trades c symbol @ trades) \<and>
     (length trades \<le> max_size c \<longrightarrow>
        evictions (stats (add_trades c symbol trades)) =
          evictions (stats c) + displaced (max_size c) (cached_trades c symbol) trades) \<and>
     (\<forall>r c'. get_recent_trades c symbol count = (r, c') \<longrightarrow>
        r \<notin> snd ` set (cache c') \<and>
        (\<forall>later. list_at (run_adds c' later) r = list_at c' r) \<and>
        (\<forall>xs s. cached_trades (caller_writes c' r xs) s = cached_trades c' s))"
proof -
  let ?old = "cached_trades c symbol"
  have len: "length ?old \<le> max_size c"
    using cache_ok_size [OF ok, of symbol] by (simp add: get_size_cached)
  note d = displaced_eq [OF len, of trades]
  note e = add_trades_effect [OF ok, of symbol trades]
  have size: "\<forall>s. get_size (run_adds c batches) s \<le> max_size c"
  proof
    fix s
    from run_adds_ok [OF ok, of batches] cache_ok_size [of "run_adds c batches" s]
    show "get_size (run_adds c batches) s \<le> max_size c" by simp
  qed
  have ev: "evictions (stats (add_trades c symbol trades)) =
       evictions (stats c) + min (length ?old) (displaced (max_size c) ?old trades)"
    using e d by (simp add: evicted_count_min)
  have content: "cached_trades (add_trades c symbol trades) symbol =
       drop (displaced (max_size c) ?old trades) (?old @ trades)"
    using e d by simp
  have short: "length trades \<le> max_size c \<longrightarrow>
        evictions (stats (add_trades c symbol trades)) =
          evictions (stats c) + displaced (max_size c) ?old trades"
    using ev d len by (auto simp: min_def)
  have fresh: "\<forall>r c'. get_recent_trades c symbol count = (r, c') \<longrightarrow>
        r \<notin> snd ` set (cache c') \<and>
        (\<forall>later. list_at (run_adds c' later) r = list_at c' r) \<and>
        (\<forall>xs s. cached_trades (caller_writes c' r xs) s = cached_trades c' s)"
  proof (intro allI impI conjI)
    fix r c'
    assume g: "get_recent_trades c symbol count = (r, c')"
    note f = get_recent_trades_ok [OF ok g]
    from f show "r \<notin> snd ` set (cache c')" by blast
    {
      fix later
      from f have "heap (run_adds c' later) r = heap c' r"
        by (intro run_adds_heap_other) blast+
      then show "list_at (run_adds c' later) r = list_at c' r" by (simp add: list_at_def)
    }
    {
      fix xs s
      from f show "cached_trades (caller_writes c' r xs) s = cached_trades c' s"
        by (intro caller_writes_cached) blast
    }
  qed
  from size ev d content short fresh show ?thesis by blast
qed

theorem trade_cache_invariants_witness:
  "cache_ok (add_trades (new_cache 3) ''WDO'' [example_trade 1, example_trade 2]) \<and>
   (\<forall>s. get_size (run_adds (add_trades (new_cache 3) ''WDO''
           [example_trade 1, example_trade 2]) [(''WDO'', [example_trade 3])]) s \<le> 3) \<and>
   length [example_trade 3, example_trade 4] \<le> (3::nat) \<and>
   displaced 3 [example_trade 1, example_trade 2] [example_trade 3, example_trade 4] = 1 \<and>
   evictions (stats (add_trades (add_trades (new_cache 3) ''WDO''
       [example_trade 1, example_trade 2]) ''WDO'' [example_trade 3, example_trade 4])) = 1 \<and>
   cached_trades (add_trades (add_trades (new_cache 3) ''WDO''
       [example_trade 1, example_trade 2]) ''WDO'' [example_trade 3, example_trade 4]) ''WDO'' =
     [example_trade 2, example_trade 3, example_trade 4] \<and>
   fst (get_recent_trades (add_trades (new_cache 3) ''WDO''
       [example_trade 1, example_trade 2]) ''WDO'' 1) \<notin>
     snd ` set (cache (snd (get_recent_trades (add_trades (new_cache 3) ''WDO''
       [example_trade 1, example_trade 2]) ''WDO'' 1)))"
proof -
  let ?b1 = "[example_trade 1, example_trade 2]"
  let ?c1 = "add_trades (new_cache 3) ''WDO'' ?b1"
  note f = example_cache_facts
  from trade_cache_invariants [OF f(1), of "[(''WDO'', [example_trade 3])]" "''WDO''"
      "[example_trade 3, example_trade 4]" 1]
  show ?thesis
    by (simp add: f prod_eq_iff dropped_on_append_def deque_append_def)
qed

text \<open>
  A batch longer than the capacity: with capacity 3 and two trades stored, a batch of five
  displaces four trades (the two stored and the first two of the batch), and the counter
  grows by two.
\<close>

theorem eviction_counter_counterexample:
  "cache_ok (add_trades (new_cache 3) ''WDO'' [example_trade 1, example_trade 2]) \<and>
   displaced 3 [example_trade 1, example_trade 2]
     [example_trade 3, example_trade 4, example_trade 5, example_trade 6, example_trade 7] = 4 \<and>
   cached_trades (run_adds (new_cache 3) example_batches) ''WDO'' =
     [example_trade 5, example_trade 6, example_trade 7] \<and>
   evictions (stats (add_trades (new_cache 3) ''WDO'' [example_trade 1, example_trade 2])) = 0 \<and>
   evictions (stats (run_adds (new_cache 3) example_batches)) = 2"
proof -
  let ?b1 = "[example_trade 1, example_trade 2]"
  let ?b2 = "[example_trade 3, example_trade 4, example_trade 5, example_trade 6,
                 example_trade 7]"
  let ?c1 = "add_trades (new_cache 3) ''WDO'' ?b1"
  have run: "run_adds (new_cache 3) example_batches = add_trades ?c1 ''WDO'' ?b2"
    by (simp add: run_adds_def example_batches_def)
  note f = example_cache_facts
  have d: "displaced 3 ?b1 ?b2 = 4"
    by (simp add: dropped_on_append_def deque_append_def)
  from add_trades_effect [OF f(1), of "''WDO''" ?b2]
  have c2: "cached_trades (add_trades ?c1 ''WDO'' ?b2) ''WDO'' =
      [example_trade 5, example_trade 6, example_trade 7]"
    and v2: "evictions (stats (add_trades ?c1 ''WDO'' ?b2)) = 2"
    by (simp_all add: f evicted_count_def)
  show ?thesis using f(1,4) d c2 v2 unfolding run by simp
qed

section \<open>Signal processor and defensive filter\<close>




lemma events_append:
  "generated_events (xs @ ys) = generated_events xs @ generated_events ys"
  "manipulation_events (xs @ ys) = manipulation_events xs @ manipulation_events ys"
  by (simp_all add: generated_events_def manipulation_events_def map_filter_def)

lemma events_single:
  "generated_events [] = []"
  "manipulation_events [] = []"
  "generated_events ((t, PATTERN_DETECTED d) # evs) = generated_events evs"
  "manipulation_events ((t, PATTERN_DETECTED d) # evs) = manipulation_events evs"
  "generated_events ((t, SIGNAL_GENERATED sg) # evs) = (t, sg) # generated_events evs"
  "manipulation_events ((t, SIGNAL_GENERATED sg) # evs) = manipulation_events evs"
  "generated_events ((t, MANIPULATION_DETECTED sg info symbol) # evs) = generated_events evs"
  "manipulation_events ((t, MANIPULATION_DETECTED sg info symbol) # evs) =
     (t, sg) # manipulation_events evs"
  "generated_events ((t, SIGNAL_APPROVED sg a) # evs) = generated_events evs"
  "manipulation_events ((t, SIGNAL_APPROVED sg a) # evs) = manipulation_events evs"
  by (simp_all add: generated_events_def manipulation_events_def map_filter_def)




lemma process_candidate_diverted:
  assumes "requires_confirmation (confirmation st) (candidate_pattern sd)"
  shows "\<exists>e st'. process_candidate st sd now = (e, [], st') \<and>
          generated_events (bus st') = generated_events (bus st) \<and>
          manipulation_events (bus st') = manipulation_events (bus st)"
  using assms
  by (simp add: process_candidate_def Let_def publish_def add_pending_pattern_def
           candidate_pattern_def [symmetric] candidate_symbol_def [symmetric]
           events_append events_single split: sum.splits)


lemma emit_confirmed_blocked:
  assumes cd: "\<not> fst (can_emit_pattern (pattern_cooldown st) (pp_pattern p) (pp_symbol p) now)"
  shows "\<exists>st'. emit_confirmed_pattern st p now = (None, st') \<and>
          generated_events (bus st') = generated_events (bus st) \<and>
          manipulation_events (bus st') = manipulation_events (bus st)"
  using assms
  by (cases "can_emit_pattern (pattern_cooldown st) (pp_pattern p) (pp_symbol p) now")
     (auto simp: emit_confirmed_pattern_def Let_def)








section \<open>Pattern confirmation\<close>

text \<open>
  C9.  A footprint that entered confirmation at time 0, with the default criteria (a
  persistence of 30 seconds, a share of 0.3) and checks one second apart: after the checks
  at 1 s and 2 s it is still pending, with two checks counted, and the check at 3 s confirms
  it and publishes the signal, three seconds after it entered confirmation.
\<close>

theorem institutional_confirmed_after_three_seconds:
  "generated_events (bus (confirmation_tick (confirmation_tick pending_institutional
       1000000) 2000000)) = [] \<and>
   map (\<lambda>(k, p). confirmation_criteria p)
     (pending_patterns (confirmation_tick (confirmation_tick pending_institutional
       1000000) 2000000)) = [InstitutionalCriteria 30 0.3 2] \<and>
   pending_patterns (confirmation_tick (confirmation_tick (confirmation_tick
       pending_institutional 1000000) 2000000) 3000000) = [] \<and>
   map (\<lambda>(t, sg). (t, d_pattern (details sg), d_confirmation_time (details sg),
                     d_confirmation_attempts (details sg)))
     (generated_events (bus (confirmation_tick (confirmation_tick (confirmation_tick
       pending_institutional 1000000) 2000000) 3000000))) =
     [(3000000, Some ''INSTITUTIONAL_FOOTPRINT_CONFIRMED'', Some 3, Some 3)]"
  by code_simp

section \<open>Cooldown filter\<close>

text \<open>
  What the filter does within a day of the time it recorded: the first candidate of a key
  passes, and a later one passes exactly when the whole seconds since the recorded time
  reach the cooldown of the pattern.
\<close>

lemma cooldown_first_pass:
  "dict_get (last_pattern_time cd) (cooldown_key pattern symbol) = None \<Longrightarrow>
   fst (can_emit_pattern cd pattern symbol now)"
  by (simp add: can_emit_pattern_def)

lemma timedelta_seconds_same_day:
  assumes "t \<le> now" and "now - t < us_per_day"
  shows "timedelta_seconds now t = (now - t) div us_per_second"
proof -
  let ?d = "(now - t) div 1000000"
  have "0 \<le> ?d" using assms(1) by (simp add: pos_imp_zdiv_nonneg_iff)
  moreover have "?d < 86400"
    using assms(2) by (simp add: us_per_day_def us_per_second_def div_less_iff_less_mult)
  ultimately have "?d mod 86400 = ?d" by simp
  then show ?thesis by (simp add: timedelta_seconds_def us_per_second_def)
qed

lemma cooldown_rule_same_day:
  assumes "dict_get (last_pattern_time cd) (cooldown_key pattern symbol) = Some t"
    and "t \<le> now" and "now - t < us_per_day"
  shows "fst (can_emit_pattern cd pattern symbol now) \<longleftrightarrow>
         (now - t) div us_per_second \<ge> cooldown_of cd pattern"
  using assms(1) timedelta_seconds_same_day [OF assms(2,3)]
  by (simp add: can_emit_pattern_def Let_def)

text \<open>
  C3, on the code.  The candidate (pattern \<^verbatim>\<open>PRESSAO_COMPRA\<close>, cooldown 15 s) is emitted at time
  0; the same candidate one day and ten seconds later is blocked by the cooldown filter and
  nothing is returned, because the filter compares \<^verbatim>\<open>(now - last).seconds\<close>, which is 10, with
  the cooldown, although 86410 s have elapsed since the last emission.  Twenty seconds after
  the emission the same candidate is emitted.
\<close>

theorem cooldown_blocks_after_a_day:
  "cooldown_of (pattern_cooldown example_service) ''PRESSAO_COMPRA'' = 15 \<and>
   total_seconds (86410 * us_per_second) 0 \<ge> 15 \<and>
   fst (snd (process_raw_signals example_service [example_candidate] 0)) =
     [candidate_signal example_candidate 0] \<and>
   dict_get (last_pattern_time (pattern_cooldown after_first_emission))
     (cooldown_key ''PRESSAO_COMPRA'' ''WDO'') = Some 0 \<and>
   fst (can_emit_pattern (pattern_cooldown after_first_emission) ''PRESSAO_COMPRA'' ''WDO''
          (86410 * us_per_second)) = False \<and>
   fst (snd (process_raw_signals after_first_emission [example_candidate]
          (86410 * us_per_second))) = [] \<and>
   blocked_count (pattern_cooldown (snd (snd (process_raw_signals after_first_emission
          [example_candidate] (86410 * us_per_second))))) = [(''WDO_PRESSAO_COMPRA'', 1)] \<and>
   fst (snd (process_raw_signals after_first_emission [example_candidate]
          (20 * us_per_second))) = [candidate_signal example_candidate (20 * us_per_second)]"
  by code_simp

text \<open>
  The time the filter records is the time of its last pass, whether or not the candidate
  was emitted afterwards: a candidate that passes the cooldown at 20 s and is dropped by
  the defensive filter makes the filter block the candidate at 30 s, thirty seconds after
  the last emission.
\<close>

lemma cooldown_counts_dropped_candidates:
  "manipulation_events (bus (snd (snd (process_raw_signals
       (update_book after_first_emission ''WDO'' layered_book) [example_candidate]
       (20 * us_per_second))))) =
     [(20 * us_per_second, candidate_signal example_candidate (20 * us_per_second))] \<and>
   fst (snd (process_raw_signals
       (update_book after_first_emission ''WDO'' layered_book) [example_candidate]
       (20 * us_per_second))) = [] \<and>
   fst (snd (process_raw_signals
     (snd (snd (process_raw_signals
       (update_book after_first_emission ''WDO'' layered_book) [example_candidate]
       (20 * us_per_second))))
     [example_candidate] (30 * us_per_second))) = [] \<and>
   manipulation_events (bus (snd (snd (process_raw_signals
     (snd (snd (process_raw_signals
       (update_book after_first_emission ''WDO'' layered_book) [example_candidate]
       (20 * us_per_second))))
     [example_candidate] (30 * us_per_second))))) =
     [(20 * us_per_second, candidate_signal example_candidate (20 * us_per_second))]"
  by code_simp

end
